theory Spec2Isabelle
  imports Complex_Main
begin

section \<open>OCPP service of the charging-station server: data model\<close>

text \<open>
  The development embeds the handlers of \<^verbatim>\<open>src/server/ocpp/services/OCPPService.ts\<close>.
  Timestamps are milliseconds since the epoch (\<open>int\<close>), JavaScript numbers that carry
  measurements are \<open>real\<close>, optional properties are \<open>option\<close>. A thrown
  \<^verbatim>\<open>BackendError\<close> is a value of type \<open>error\<close>; every handler ends in its own
  catch-all, which turns the error into the rejecting response and keeps whatever had been
  persisted before the throw. Logging, notifications that are fired and forgotten, roaming
  pushes, smart-charging triggers and the configuration requests deferred by a timer write
  to none of the collections below and do not appear.
\<close>

datatype error = BackendError string | TypeError string

datatype OCPPVersion = VERSION_12 | VERSION_15 | VERSION_16 | VERSION_20

datatype OCPPProtocol = SOAP | JSON

datatype RegistrationStatus = Reg_ACCEPTED | Reg_PENDING | Reg_REJECTED

datatype OCPPAuthorizationStatus = Auth_ACCEPTED | Auth_BLOCKED | Auth_EXPIRED | Auth_INVALID

datatype ChargePointStatus =
    AVAILABLE | PREPARING | CHARGING | OCCUPIED | SUSPENDED_EVSE | SUSPENDED_EV
  | FINISHING | RESERVED | UNAVAILABLE | FAULTED

datatype InactivityStatus = INFO | WARNING | ERROR

datatype CurrentType = AC | DC

datatype ConnectorCurrentLimitSource = CHARGING_PROFILE | STATIC_LIMITATION | CONNECTOR

datatype ChargingRateUnitType = WATT_UNIT | AMPERE

datatype OCPPReadingContext =
    INTERRUPTION_BEGIN | INTERRUPTION_END | OTHER | SAMPLE_CLOCK | SAMPLE_PERIODIC
  | TRANSACTION_BEGIN | TRANSACTION_END | TRIGGER

datatype OCPPValueFormat = RAW | SIGNED_DATA

datatype OCPPMeasurand =
    ENERGY_ACTIVE_IMPORT_REGISTER | POWER_ACTIVE_IMPORT | CURRENT_IMPORT | VOLTAGE
  | STATE_OF_CHARGE | OTHER_MEASURAND string

datatype OCPPLocation = BODY | CABLE | EV | INLET | OUTLET

datatype OCPPUnitOfMeasure =
    WATT_HOUR | KILO_WATT_HOUR | WATT | KILO_WATT | VOLT | AMP | PERCENT | OTHER_UNIT string

datatype OCPPPhase = L1 | L2 | L3 | N | L1_N | L2_N | L3_N | L1_L2 | L2_L3 | L3_L1

datatype TransactionAction = Action_START | Action_UPDATE | Action_STOP | Action_END

text \<open>\<^verbatim>\<open>ChargerVendor.ABB\<close>, the vendor string of the stations whose clock samples are kept.\<close>

definition ChargerVendor_ABB :: string where
  "ChargerVendor_ABB = ''ABB''"

text \<open>A normalized meter value: a number for format Raw, the opaque text for SignedData.\<close>

datatype meter_reading = Num real | Str string

record OCPPAttribute =
  at_context :: OCPPReadingContext
  at_format :: OCPPValueFormat
  at_measurand :: OCPPMeasurand
  at_location :: OCPPLocation
  at_unit :: OCPPUnitOfMeasure
  at_phase :: "OCPPPhase option"

record OCPPNormalizedMeterValue =
  mv_chargeBoxID :: string
  mv_connectorId :: int
  mv_transactionId :: int
  mv_timestamp :: int
  mv_attribute :: OCPPAttribute
  mv_value :: meter_reading

record User =
  u_id :: string
  u_issuer :: bool

record Connector =
  co_connectorId :: int
  co_status :: ChargePointStatus
  co_errorCode :: string
  co_info :: "string option"
  co_vendorErrorCode :: "string option"
  co_statusLastChangedOn :: "int option"
  co_currentTransactionID :: int
  co_currentTransactionDate :: "int option"
  co_currentTagID :: "string option"
  co_userID :: "string option"
  co_currentInstantWatts :: real
  co_currentTotalConsumptionWh :: real
  co_currentTotalInactivitySecs :: int
  co_currentInactivityStatus :: InactivityStatus
  co_currentStateOfCharge :: real
  co_power :: real

record ChargingStation =
  cs_id :: string
  cs_chargePointVendor :: string
  cs_chargePointModel :: string
  cs_chargePointSerialNumber :: "string option"
  cs_chargeBoxSerialNumber :: "string option"
  cs_firmwareVersion :: "string option"
  cs_endpoint :: "string option"
  cs_chargingStationURL :: "string option"
  cs_currentIPAddress :: "string option"
  cs_ocppVersion :: "OCPPVersion option"
  cs_ocppProtocol :: "OCPPProtocol option"
  cs_registrationStatus :: RegistrationStatus
  cs_issuer :: bool
  cs_public :: bool
  cs_deleted :: bool
  cs_powerLimitUnit :: "ChargingRateUnitType option"
  cs_createdOn :: "int option"
  cs_lastReboot :: int
  cs_lastSeen :: int
  cs_siteAreaID :: "string option"
  cs_siteID :: "string option"
  cs_coordinates :: "real list"
  cs_connectors :: "Connector list"

record LastConsumption =
  lc_value :: real
  lc_timestamp :: int

record RemoteStop =
  rs_tagID :: string
  rs_timestamp :: int

record TransactionStop =
  sp_timestamp :: int
  sp_meterStop :: real
  sp_tagID :: string
  sp_userID :: "string option"
  sp_totalConsumptionWh :: real
  sp_totalInactivitySecs :: int
  sp_inactivityStatus :: InactivityStatus
  sp_totalDurationSecs :: int
  sp_extraInactivitySecs :: "int option"
  sp_extraInactivityComputed :: bool
  sp_stateOfCharge :: real
  sp_signedData :: string

record Transaction =
  tx_id :: int
  tx_chargeBoxID :: string
  tx_connectorId :: int
  tx_tagID :: string
  tx_userID :: "string option"
  tx_user :: "User option"
  tx_timestamp :: int
  tx_meterStart :: real
  tx_numberOfMeterValues :: nat
  tx_lastConsumption :: "LastConsumption option"
  tx_stateOfCharge :: real
  tx_signedData :: string
  tx_currentSignedData :: string
  tx_currentStateOfCharge :: real
  tx_currentTotalConsumptionWh :: real
  tx_currentTotalInactivitySecs :: int
  tx_currentInactivityStatus :: InactivityStatus
  tx_currentInstantWatts :: real
  tx_currentInstantWattsL1 :: real
  tx_currentInstantWattsL2 :: real
  tx_currentInstantWattsL3 :: real
  tx_currentInstantWattsDC :: real
  tx_currentInstantVolts :: real
  tx_currentInstantVoltsL1 :: real
  tx_currentInstantVoltsL2 :: real
  tx_currentInstantVoltsL3 :: real
  tx_currentInstantVoltsDC :: real
  tx_currentInstantAmps :: real
  tx_currentInstantAmpsL1 :: real
  tx_currentInstantAmpsL2 :: real
  tx_currentInstantAmpsL3 :: real
  tx_currentInstantAmpsDC :: real
  tx_transactionEndReceived :: bool
  tx_remotestop :: "RemoteStop option"
  tx_stop :: "TransactionStop option"

record Consumption =
  cn_transactionId :: int
  cn_startedAt :: int
  cn_endedAt :: int
  cn_consumptionWh :: real
  cn_instantWatts :: real
  cn_cumulatedConsumptionWh :: real
  cn_totalInactivitySecs :: int
  cn_stateOfCharge :: real
  cn_limitSource :: "ConnectorCurrentLimitSource option"
  cn_limitAmps :: "real option"
  cn_toPrice :: bool


section \<open>Collaborators that are not part of the service\<close>

text \<open>
  \<^verbatim>\<open>OCPPUtils\<close>, \<^verbatim>\<open>Utils\<close>, \<^verbatim>\<open>OCPPValidation\<close>, \<^verbatim>\<open>Authorizations\<close>, the pricing and
  billing integrations and the configuration are consumed by the service through calls.
  What such a call returns is a parameter of the model: one field per call, named as in the
  source. A validation is \<open>True\<close> when it does not throw; a fallible call returns
  \<open>Some e\<close> or \<open>Inl e\<close> when it throws \<open>e\<close>. \<open>now\<close> is the wall clock read by
  \<^verbatim>\<open>new Date()\<close> and \<^verbatim>\<open>moment()\<close> during one handler run.
\<close>

record OCPPBootNotificationRequest =
  bn_chargePointVendor :: string
  bn_chargePointModel :: string
  bn_chargePointSerialNumber :: "string option"
  bn_chargeBoxSerialNumber :: "string option"
  bn_firmwareVersion :: "string option"

record OCPPStopTransactionRequest =
  st_transactionId :: int
  st_idTag :: "string option"
  st_meterStop :: real
  st_timestamp :: int
  st_chargeBoxID :: "string option"

record OCPPStartTransactionRequest =
  sr_connectorId :: int
  sr_idTag :: string
  sr_meterStart :: real
  sr_timestamp :: int

record collaborators =
  now :: int
  heartbeatIntervalOCPPSSecs :: int
  heartbeatIntervalOCPPJSecs :: int
  BOOT_NOTIFICATION_WAIT_TIME :: int
  notifEndOfChargeEnabled :: bool
  notifBeforeEndOfChargeEnabled :: bool
  notifBeforeEndOfChargePercent :: real
  MIN_LIMIT_PER_PHASE :: real
  validateBootNotification :: "OCPPBootNotificationRequest \<Rightarrow> bool"
  validateStartTransaction :: "ChargingStation \<Rightarrow> OCPPStartTransactionRequest \<Rightarrow> bool"
  validateStopTransaction :: "ChargingStation \<Rightarrow> OCPPStopTransactionRequest \<Rightarrow> bool"
  isAuthorizedToStartTransaction :: "ChargingStation \<Rightarrow> string \<Rightarrow> error + User option"
  isAuthorizedToStopTransaction ::
    "ChargingStation \<Rightarrow> Transaction \<Rightarrow> string \<Rightarrow> error + (User option \<times> User option)"
  getUserByTagId :: "string \<Rightarrow> User option"
  getChargingStationCurrentType :: "ChargingStation \<Rightarrow> int \<Rightarrow> CurrentType option"
  getNumberOfConnectedPhases :: "ChargingStation \<Rightarrow> int \<Rightarrow> real"
  getInactivityStatusLevel :: "string \<Rightarrow> int \<Rightarrow> int \<Rightarrow> InactivityStatus"
  isEnergyActiveImportMeterValue :: "OCPPNormalizedMeterValue \<Rightarrow> bool"
  templateConnectors :: "ChargingStation \<Rightarrow> Connector list option"
  manualConnectors :: "ChargingStation \<Rightarrow> Connector list"
  createTransactionStopMeterValues ::
    "ChargingStation \<Rightarrow> Transaction \<Rightarrow> OCPPStopTransactionRequest \<Rightarrow> OCPPNormalizedMeterValue list"
  createConsumptionsFromMeterValues ::
    "ChargingStation \<Rightarrow> Transaction \<Rightarrow> OCPPNormalizedMeterValue list \<Rightarrow> error + Consumption list"
  priceTransaction :: "Transaction \<Rightarrow> Consumption \<Rightarrow> TransactionAction \<Rightarrow> error option"
  billTransaction :: "Transaction \<Rightarrow> TransactionAction \<Rightarrow> error option"

section \<open>Meter values\<close>

subsection \<open>The filter on clock samples\<close>

text \<open>
  \<^verbatim>\<open>filterMeterValuesOnSpecificChargingStations\<close> hands \<^verbatim>\<open>Array.prototype.filter\<close> an
  \<^verbatim>\<open>async\<close> callback. Calling an async function returns a Promise at once; the
  \<^verbatim>\<open>false\<close> or \<^verbatim>\<open>true\<close> of its body is the value the Promise resolves to.
  \<^verbatim>\<open>filter\<close> does not await: it keeps an element when the returned value is truthy, and
  every object, a Promise included, is truthy. A normalized meter value always has its
  attribute block, so the callback's test \<^verbatim>\<open>meterValue.attribute &&\<close> is on the context alone.
\<close>

datatype 'a promise = Promise 'a

fun truthy :: "'a promise \<Rightarrow> bool" where
  "truthy (Promise v) = True"

definition removeSampleClock :: "OCPPNormalizedMeterValue \<Rightarrow> bool promise" where
  "removeSampleClock meterValue =
     Promise (if at_context (mv_attribute meterValue) = SAMPLE_CLOCK then False else True)"

definition filterMeterValuesOnSpecificChargingStations ::
  "ChargingStation \<Rightarrow> OCPPNormalizedMeterValue list \<Rightarrow> OCPPNormalizedMeterValue list" where
  "filterMeterValuesOnSpecificChargingStations chargingStation values =
     (if cs_chargePointVendor chargingStation \<noteq> ChargerVendor_ABB \<or>
         cs_ocppVersion chargingStation \<noteq> Some VERSION_15
      then filter (\<lambda>meterValue. truthy (removeSampleClock meterValue)) values
      else values)"

subsection \<open>Updating the transaction from meter values\<close>

definition convertToFloat :: "meter_reading \<Rightarrow> real" where
  \<comment> \<open>Modelled from the spec: \<^verbatim>\<open>Utils.convertToFloat\<close> is not among the sources; a Raw
      value is its decimal number (4.A), and text that is no number counts as 0 here.\<close>
  "convertToFloat v = (case v of Num r \<Rightarrow> r | Str s \<Rightarrow> 0)"

definition readingText :: "meter_reading \<Rightarrow> string" where
  "readingText v = (case v of Num r \<Rightarrow> [] | Str s \<Rightarrow> s)"

definition updateSignedData :: "Transaction \<Rightarrow> OCPPNormalizedMeterValue \<Rightarrow> bool \<times> Transaction" where
  \<comment> \<open>Modelled from the spec: \<^verbatim>\<open>OCPPUtils.updateSignedData\<close> is not among the sources.
      4.D.2: signed data at Transaction.Begin is stored as the transaction's signedData, at
      Transaction.End it is kept for the stop block; it is not treated as consumption.\<close>
  "updateSignedData transaction meterValue =
     (if at_format (mv_attribute meterValue) = SIGNED_DATA then
        (if at_context (mv_attribute meterValue) = TRANSACTION_BEGIN then
           (True, transaction\<lparr>tx_signedData := readingText (mv_value meterValue)\<rparr>)
         else if at_context (mv_attribute meterValue) = TRANSACTION_END then
           (True, transaction\<lparr>tx_currentSignedData := readingText (mv_value meterValue)\<rparr>)
         else (False, transaction))
      else (False, transaction))"

text \<open>Lines 1375 to 1390: the assignments made at the first Transaction.End value.\<close>

definition clearInstantValues :: "Transaction \<Rightarrow> Transaction" where
  "clearInstantValues transaction = transaction\<lparr>
     tx_currentInstantWatts := 0,
     tx_currentInstantWattsL1 := 0,
     tx_currentInstantWattsL2 := 0,
     tx_currentInstantWattsL3 := 0,
     tx_currentInstantWattsDC := 0,
     tx_currentInstantVolts := 0,
     tx_currentInstantVoltsL1 := 0,
     tx_currentInstantVoltsL2 := 0,
     tx_currentInstantVoltsL3 := 0,
     tx_currentInstantVoltsDC := 0,
     tx_currentInstantAmps := 0,
     tx_currentInstantAmpsL1 := 0,
     tx_currentInstantAmpsL2 := 0,
     tx_currentInstantAmpsL3 := 0,
     tx_currentInstantAmpsDC := 0,
     tx_transactionEndReceived := True\<rparr>"

definition setVoltage ::
  "collaborators \<Rightarrow> ChargingStation \<Rightarrow> Transaction \<Rightarrow> OCPPNormalizedMeterValue \<Rightarrow> Transaction" where
  "setVoltage E chargingStation transaction meterValue =
     (let voltage = convertToFloat (mv_value meterValue) in
      case getChargingStationCurrentType E chargingStation (tx_connectorId transaction) of
        Some DC \<Rightarrow> transaction\<lparr>tx_currentInstantVoltsDC := voltage\<rparr>
      | Some AC \<Rightarrow>
          (case at_phase (mv_attribute meterValue) of
             Some L1_N \<Rightarrow> transaction\<lparr>tx_currentInstantVoltsL1 := voltage\<rparr>
           | Some L1 \<Rightarrow> transaction\<lparr>tx_currentInstantVoltsL1 := voltage\<rparr>
           | Some L2_N \<Rightarrow> transaction\<lparr>tx_currentInstantVoltsL2 := voltage\<rparr>
           | Some L2 \<Rightarrow> transaction\<lparr>tx_currentInstantVoltsL2 := voltage\<rparr>
           | Some L3_N \<Rightarrow> transaction\<lparr>tx_currentInstantVoltsL3 := voltage\<rparr>
           | Some L3 \<Rightarrow> transaction\<lparr>tx_currentInstantVoltsL3 := voltage\<rparr>
           | Some L1_L2 \<Rightarrow> transaction
           | Some L2_L3 \<Rightarrow> transaction
           | Some L3_L1 \<Rightarrow> transaction
           | _ \<Rightarrow> transaction\<lparr>tx_currentInstantVolts := voltage\<rparr>)
      | None \<Rightarrow> transaction)"

definition setPower ::
  "collaborators \<Rightarrow> ChargingStation \<Rightarrow> Transaction \<Rightarrow> OCPPNormalizedMeterValue \<Rightarrow> Transaction" where
  "setPower E chargingStation transaction meterValue =
     (let powerInMeterValue = convertToFloat (mv_value meterValue);
          powerInMeterValueWatts =
            (if at_unit (mv_attribute meterValue) = KILO_WATT
             then powerInMeterValue * 1000 else powerInMeterValue) in
      case getChargingStationCurrentType E chargingStation (tx_connectorId transaction) of
        Some DC \<Rightarrow> transaction\<lparr>tx_currentInstantWattsDC := powerInMeterValueWatts\<rparr>
      | Some AC \<Rightarrow>
          (case at_phase (mv_attribute meterValue) of
             Some L1_N \<Rightarrow> transaction\<lparr>tx_currentInstantWattsL1 := powerInMeterValueWatts\<rparr>
           | Some L1 \<Rightarrow> transaction\<lparr>tx_currentInstantWattsL1 := powerInMeterValueWatts\<rparr>
           | Some L2_N \<Rightarrow> transaction\<lparr>tx_currentInstantWattsL2 := powerInMeterValueWatts\<rparr>
           | Some L2 \<Rightarrow> transaction\<lparr>tx_currentInstantWattsL2 := powerInMeterValueWatts\<rparr>
           | Some L3_N \<Rightarrow> transaction\<lparr>tx_currentInstantWattsL3 := powerInMeterValueWatts\<rparr>
           | Some L3 \<Rightarrow> transaction\<lparr>tx_currentInstantWattsL3 := powerInMeterValueWatts\<rparr>
           | _ \<Rightarrow> transaction\<lparr>tx_currentInstantWatts := powerInMeterValueWatts\<rparr>)
      | None \<Rightarrow> transaction)"

definition setAmperage ::
  "collaborators \<Rightarrow> ChargingStation \<Rightarrow> Transaction \<Rightarrow> OCPPNormalizedMeterValue \<Rightarrow> Transaction" where
  "setAmperage E chargingStation transaction meterValue =
     (let amperage = convertToFloat (mv_value meterValue) in
      case getChargingStationCurrentType E chargingStation (tx_connectorId transaction) of
        Some DC \<Rightarrow> transaction\<lparr>tx_currentInstantAmpsDC := amperage\<rparr>
      | Some AC \<Rightarrow>
          (case at_phase (mv_attribute meterValue) of
             Some L1 \<Rightarrow> transaction\<lparr>tx_currentInstantAmpsL1 := amperage\<rparr>
           | Some L2 \<Rightarrow> transaction\<lparr>tx_currentInstantAmpsL2 := amperage\<rparr>
           | Some L3 \<Rightarrow> transaction\<lparr>tx_currentInstantAmpsL3 := amperage\<rparr>
           | _ \<Rightarrow> transaction\<lparr>tx_currentInstantAmps :=
                   amperage * getNumberOfConnectedPhases E chargingStation (tx_connectorId transaction)\<rparr>)
      | None \<Rightarrow> transaction)"

text \<open>
  Lines 1393 to 1519: what the loop body does with one meter value once the
  Transaction.End flag has been dealt with. Each \<^verbatim>\<open>continue\<close> is a branch that
  returns.
\<close>

definition dispatchMeterValue ::
  "collaborators \<Rightarrow> ChargingStation \<Rightarrow> Transaction \<Rightarrow> OCPPNormalizedMeterValue \<Rightarrow> Transaction" where
  "dispatchMeterValue E chargingStation transaction meterValue =
     (let a = mv_attribute meterValue in
      case updateSignedData transaction meterValue of
        (True, signed) \<Rightarrow> signed
      | (False, t) \<Rightarrow>
          if at_measurand a = STATE_OF_CHARGE \<and> at_context a = TRANSACTION_BEGIN then
            t\<lparr>tx_stateOfCharge := convertToFloat (mv_value meterValue)\<rparr>
          else if at_measurand a = STATE_OF_CHARGE \<and> at_context a = TRANSACTION_END then
            t\<lparr>tx_currentStateOfCharge := convertToFloat (mv_value meterValue)\<rparr>
          else if at_measurand a = VOLTAGE \<and> at_context a = TRANSACTION_END then
            setVoltage E chargingStation t meterValue
          else if at_measurand a = POWER_ACTIVE_IMPORT \<and> at_context a = TRANSACTION_END then
            setPower E chargingStation t meterValue
          else if at_measurand a = CURRENT_IMPORT \<and> at_context a = TRANSACTION_END then
            setAmperage E chargingStation t meterValue
          else if isEnergyActiveImportMeterValue E meterValue then
            t\<lparr>tx_numberOfMeterValues := tx_numberOfMeterValues t + 1\<rparr>
          else t)"

definition updateTransactionWithMeterValue ::
  "collaborators \<Rightarrow> ChargingStation \<Rightarrow> Transaction \<Rightarrow> OCPPNormalizedMeterValue \<Rightarrow> Transaction" where
  "updateTransactionWithMeterValue E chargingStation transaction meterValue =
     dispatchMeterValue E chargingStation
       (if at_context (mv_attribute meterValue) = TRANSACTION_END \<and>
           \<not> tx_transactionEndReceived transaction
        then clearInstantValues transaction else transaction)
       meterValue"

definition updateTransactionWithMeterValues ::
  "collaborators \<Rightarrow> ChargingStation \<Rightarrow> Transaction \<Rightarrow> OCPPNormalizedMeterValue list \<Rightarrow> Transaction" where
  "updateTransactionWithMeterValues E chargingStation transaction meterValues =
     foldl (updateTransactionWithMeterValue E chargingStation) transaction meterValues"

text \<open>The fifteen instant readings of a transaction, in the order in which they are cleared.\<close>

definition instantValues :: "Transaction \<Rightarrow> real list" where
  "instantValues t =
     [tx_currentInstantWatts t, tx_currentInstantWattsL1 t, tx_currentInstantWattsL2 t,
      tx_currentInstantWattsL3 t, tx_currentInstantWattsDC t,
      tx_currentInstantVolts t, tx_currentInstantVoltsL1 t, tx_currentInstantVoltsL2 t,
      tx_currentInstantVoltsL3 t, tx_currentInstantVoltsDC t,
      tx_currentInstantAmps t, tx_currentInstantAmpsL1 t, tx_currentInstantAmpsL2 t,
      tx_currentInstantAmpsL3 t, tx_currentInstantAmpsDC t]"

section \<open>Storage\<close>

text \<open>
  The storage classes are not part of the service. Modelled from the spec (6, consumed
  integrations: CRUD on Tenant, ChargingStation, Transaction, Consumption,
  RegistrationToken; "get last transaction from station/connector"; "get active transaction
  on (station, connector)"), they are the collections of one database: stations, tokens and
  site areas by their key, transactions and consumptions as the documents of a collection
  in insertion order. Saving a transaction replaces the document with its id, or appends
  it when there is none. The query for the active transaction of a connector answers with
  the first open transaction in that order: the spec names the query (3 and 8 allow one
  open transaction for each connector) and does not say which one it is when several are
  open, nor where a saved document is kept.
\<close>

record Tenant =
  tn_id :: string
  tn_subdomain :: string

record RegistrationToken =
  rt_expirationDate :: "int option"
  rt_revocationDate :: "int option"
  rt_siteAreaID :: "string option"

record SiteArea =
  sa_siteID :: "string option"
  sa_coordinates :: "real list"

record OCPPHeader =
  hd_tenantID :: string
  hd_chargeBoxIdentity :: string
  hd_currentIPAddress :: "string option"
  hd_ocppProtocol :: "OCPPProtocol option"
  hd_ocppVersion :: "OCPPVersion option"
  hd_token :: "string option"
  hd_From_Address :: "string option"
  hd_chargingStationURL :: "string option"


record storage =
  db_tenants :: "string \<rightharpoonup> Tenant"
  db_chargingStations :: "string \<rightharpoonup> ChargingStation"
  db_registrationTokens :: "string \<rightharpoonup> RegistrationToken"
  db_siteAreas :: "string \<rightharpoonup> SiteArea"
  db_transactions :: "Transaction list"
  db_consumptions :: "Consumption list"
  db_bootNotifications :: "(string \<times> OCPPBootNotificationRequest) list"

definition getTenant :: "storage \<Rightarrow> string \<Rightarrow> Tenant option" where
  "getTenant db tenantID = db_tenants db tenantID"

definition getChargingStation :: "storage \<Rightarrow> string \<Rightarrow> ChargingStation option" where
  "getChargingStation db chargeBoxID = db_chargingStations db chargeBoxID"

definition saveChargingStation :: "storage \<Rightarrow> ChargingStation \<Rightarrow> storage" where
  "saveChargingStation db chargingStation =
     db\<lparr>db_chargingStations := (db_chargingStations db)(cs_id chargingStation \<mapsto> chargingStation)\<rparr>"

definition getRegistrationToken :: "storage \<Rightarrow> string \<Rightarrow> RegistrationToken option" where
  "getRegistrationToken db token = db_registrationTokens db token"

definition getSiteArea :: "storage \<Rightarrow> string \<Rightarrow> SiteArea option" where
  "getSiteArea db siteAreaID = db_siteAreas db siteAreaID"

definition saveBootNotification :: "storage \<Rightarrow> string \<Rightarrow> OCPPBootNotificationRequest \<Rightarrow> storage" where
  "saveBootNotification db chargeBoxID bootNotification =
     db\<lparr>db_bootNotifications := db_bootNotifications db @ [(chargeBoxID, bootNotification)]\<rparr>"

definition getTransaction :: "storage \<Rightarrow> int \<Rightarrow> Transaction option" where
  "getTransaction db transactionId = find (\<lambda>t. tx_id t = transactionId) (db_transactions db)"

fun putTransaction :: "Transaction \<Rightarrow> Transaction list \<Rightarrow> Transaction list" where
  "putTransaction t [] = [t]"
| "putTransaction t (x # xs) = (if tx_id x = tx_id t then t # xs else x # putTransaction t xs)"

definition saveTransaction :: "storage \<Rightarrow> Transaction \<Rightarrow> storage" where
  "saveTransaction db transaction =
     db\<lparr>db_transactions := putTransaction transaction (db_transactions db)\<rparr>"






definition saveConsumption :: "storage \<Rightarrow> Consumption \<Rightarrow> storage" where
  "saveConsumption db consumption = db\<lparr>db_consumptions := db_consumptions db @ [consumption]\<rparr>"


section \<open>End-of-charge notifications\<close>






section \<open>Status notifications and the last transaction\<close>





section \<open>BootNotification\<close>

record OCPPBootNotificationResponse =
  br_status :: RegistrationStatus
  br_currentTime :: int
  br_interval :: "int option"

text \<open>JavaScript truthiness of an optional string: present and not empty.\<close>

definition truthyString :: "string option \<Rightarrow> bool" where
  "truthyString s = (case s of None \<Rightarrow> False | Some x \<Rightarrow> x \<noteq> [])"

definition heartbeatIntervalSecs :: "collaborators \<Rightarrow> OCPPHeader \<Rightarrow> int option" where
  "heartbeatIntervalSecs E headers =
     (case hd_ocppProtocol headers of
        Some SOAP \<Rightarrow> Some (heartbeatIntervalOCPPSSecs E)
      | Some JSON \<Rightarrow> Some (heartbeatIntervalOCPPJSecs E)
      | None \<Rightarrow> None)"

text \<open>
  Lines 134 to 142: the new station takes every property of the notification, to which the
  handler has added the identity, the address, protocol and version of the header, and the
  time of the boot.
\<close>

definition newChargingStation ::
  "collaborators \<Rightarrow> OCPPHeader \<Rightarrow> OCPPBootNotificationRequest \<Rightarrow> ChargingStation" where
  "newChargingStation E headers bootNotification = \<lparr>
     cs_id = hd_chargeBoxIdentity headers,
     cs_chargePointVendor = bn_chargePointVendor bootNotification,
     cs_chargePointModel = bn_chargePointModel bootNotification,
     cs_chargePointSerialNumber = bn_chargePointSerialNumber bootNotification,
     cs_chargeBoxSerialNumber = bn_chargeBoxSerialNumber bootNotification,
     cs_firmwareVersion = bn_firmwareVersion bootNotification,
     cs_endpoint = hd_From_Address headers,
     cs_chargingStationURL = None,
     cs_currentIPAddress = hd_currentIPAddress headers,
     cs_ocppVersion = hd_ocppVersion headers,
     cs_ocppProtocol = hd_ocppProtocol headers,
     cs_registrationStatus = Reg_ACCEPTED,
     cs_issuer = True,
     cs_public = False,
     cs_deleted = False,
     cs_powerLimitUnit = Some AMPERE,
     cs_createdOn = Some (now E),
     cs_lastReboot = now E,
     cs_lastSeen = now E,
     cs_siteAreaID = None,
     cs_siteID = None,
     cs_coordinates = [],
     cs_connectors = []\<rparr>"

text \<open>Lines 144 to 154.\<close>

definition assignToSiteArea :: "storage \<Rightarrow> RegistrationToken \<Rightarrow> ChargingStation \<Rightarrow> ChargingStation" where
  "assignToSiteArea db token chargingStation =
     (if truthyString (rt_siteAreaID token) then
        (case getSiteArea db (the (rt_siteAreaID token)) of
           None \<Rightarrow> chargingStation
         | Some siteArea \<Rightarrow>
             (let linked = chargingStation\<lparr>cs_siteAreaID := rt_siteAreaID token,
                                           cs_siteID := sa_siteID siteArea\<rparr> in
              if length (sa_coordinates siteArea) = 2
              then linked\<lparr>cs_coordinates := sa_coordinates siteArea\<rparr>
              else linked))
      else chargingStation)"

text \<open>
  Lines 105 to 154, the station id is unknown. \<^verbatim>\<open>moment().isAfter(d)\<close> is \<open>d < now\<close>;
  on an absent date it is false.
\<close>

definition registerChargingStation ::
  "collaborators \<Rightarrow> storage \<Rightarrow> OCPPHeader \<Rightarrow> OCPPBootNotificationRequest \<Rightarrow> error + ChargingStation" where
  "registerChargingStation E db headers bootNotification =
     (if \<not> truthyString (hd_token headers) then
        Inl (BackendError ''Registration rejected: Token is required'')
      else
        (case getRegistrationToken db (the (hd_token headers)) of
           None \<Rightarrow> Inl (BackendError ''Registration rejected: Token is invalid or expired'')
         | Some token \<Rightarrow>
             if (case rt_expirationDate token of
                   None \<Rightarrow> True
                 | Some expirationDate \<Rightarrow> expirationDate < now E)
             then Inl (BackendError ''Registration rejected: Token is invalid or expired'')
             else if rt_revocationDate token \<noteq> None \<or>
                     (case rt_revocationDate token of
                        None \<Rightarrow> False
                      | Some revocationDate \<Rightarrow> revocationDate < now E)
             then Inl (BackendError ''Registration rejected: Token is revoked'')
             else Inr (assignToSiteArea db token (newChargingStation E headers bootNotification))))"

text \<open>Lines 156 to 198, the station id is known.\<close>

definition updateChargingStation ::
  "collaborators \<Rightarrow> ChargingStation \<Rightarrow> OCPPBootNotificationRequest \<Rightarrow> error + ChargingStation" where
  "updateChargingStation E chargingStation bootNotification =
     (if (cs_chargePointVendor chargingStation \<noteq> bn_chargePointVendor bootNotification \<or>
          cs_chargePointModel chargingStation \<noteq> bn_chargePointModel bootNotification) \<or>
         (truthyString (cs_chargePointSerialNumber chargingStation) \<and>
          truthyString (bn_chargePointSerialNumber bootNotification) \<and>
          cs_chargePointSerialNumber chargingStation \<noteq> bn_chargePointSerialNumber bootNotification)
      then Inl (BackendError ''Boot Notification Rejected: Attribute mismatch'')
      else Inr (chargingStation\<lparr>
        cs_chargePointSerialNumber := bn_chargePointSerialNumber bootNotification,
        cs_chargeBoxSerialNumber := bn_chargeBoxSerialNumber bootNotification,
        cs_firmwareVersion := bn_firmwareVersion bootNotification,
        cs_lastReboot := now E,
        cs_registrationStatus := Reg_ACCEPTED,
        cs_deleted := False\<rparr>))"

definition applyTemplateToChargingStation :: "collaborators \<Rightarrow> ChargingStation \<Rightarrow> ChargingStation" where
  \<comment> \<open>Modelled from the spec: \<^verbatim>\<open>OCPPUtils.applyTemplateToChargingStation\<close>,
      \<^verbatim>\<open>checkAndSetChargingStationAmperageLimit\<close> and \<^verbatim>\<open>setChargingStationPhaseAssignment\<close>
      are not among the sources. 4.B, step 5: the template sets connector types, power and
      phase assignment; step 6: the station is persisted, by the template code when it
      updated the station (\<open>templateConnectors\<close> gives \<open>Some\<close>) and by the handler after
      the manual settings otherwise.\<close>
  "applyTemplateToChargingStation E chargingStation =
     (case templateConnectors E chargingStation of
        Some connectors \<Rightarrow> chargingStation\<lparr>cs_connectors := connectors\<rparr>
      | None \<Rightarrow> chargingStation\<lparr>cs_connectors := manualConnectors E chargingStation\<rparr>)"

text \<open>Lines 67 to 296, the body of the \<^verbatim>\<open>try\<close>.\<close>

definition bootNotificationBody ::
  "collaborators \<Rightarrow> storage \<Rightarrow> OCPPHeader \<Rightarrow> OCPPBootNotificationRequest \<Rightarrow>
   error + (OCPPBootNotificationResponse \<times> storage)" where
  "bootNotificationBody E db headers bootNotification =
     (if \<not> validateBootNotification E bootNotification then
        Inl (BackendError ''Invalid boot notification'')
      else if hd_chargeBoxIdentity headers = [] then
        Inl (BackendError ''Should have the required property chargeBoxIdentity'')
      else
        (case getTenant db (hd_tenantID headers) of
           None \<Rightarrow> Inl (BackendError ''Tenant does not exist'')
         | Some tenant \<Rightarrow>
             (case (case getChargingStation db (hd_chargeBoxIdentity headers) of
                      None \<Rightarrow> registerChargingStation E db headers bootNotification
                    | Some chargingStation \<Rightarrow>
                        updateChargingStation E chargingStation bootNotification) of
                Inl e \<Rightarrow> Inl e
              | Inr chargingStation \<Rightarrow>
                  (let seen = chargingStation\<lparr>
                         cs_ocppVersion := hd_ocppVersion headers,
                         cs_ocppProtocol := hd_ocppProtocol headers,
                         cs_lastSeen := now E,
                         cs_currentIPAddress := hd_currentIPAddress headers\<rparr>;
                       addressed =
                         (if truthyString (hd_chargingStationURL headers)
                          then seen\<lparr>cs_chargingStationURL := hd_chargingStationURL headers\<rparr>
                          else seen);
                       db1 = saveChargingStation db (applyTemplateToChargingStation E addressed);
                       db2 = saveBootNotification db1 (hd_chargeBoxIdentity headers) bootNotification
                   in Inr (\<lparr>br_status = Reg_ACCEPTED, br_currentTime = now E,
                            br_interval = heartbeatIntervalSecs E headers\<rparr>, db2)))))"

definition handleBootNotification ::
  "collaborators \<Rightarrow> storage \<Rightarrow> OCPPHeader \<Rightarrow> OCPPBootNotificationRequest \<Rightarrow>
   OCPPBootNotificationResponse \<times> storage" where
  "handleBootNotification E db headers bootNotification =
     (case bootNotificationBody E db headers bootNotification of
        Inr accepted \<Rightarrow> accepted
      | Inl e \<Rightarrow>
          (\<lparr>br_status = Reg_REJECTED, br_currentTime = now E,
            br_interval = Some (BOOT_NOTIFICATION_WAIT_TIME E)\<rparr>, db))"

section \<open>StopTransaction\<close>

definition checkAndGetTenantAndChargingStation ::
  "storage \<Rightarrow> OCPPHeader \<Rightarrow> error + (ChargingStation \<times> Tenant)" where
  \<comment> \<open>Modelled from the spec: \<^verbatim>\<open>OCPPUtils.checkAndGetTenantAndChargingStation\<close> is not among
      the sources. 2 and 4.B: every handler first resolves the tenant and the station of the
      header; 7: an unknown tenant or station is an error.\<close>
  "checkAndGetTenantAndChargingStation db headers =
     (if hd_chargeBoxIdentity headers = [] then Inl (BackendError ''Missing chargeBoxIdentity'')
      else
        (case getTenant db (hd_tenantID headers) of
           None \<Rightarrow> Inl (BackendError ''Tenant does not exist'')
         | Some tenant \<Rightarrow>
             (case getChargingStation db (hd_chargeBoxIdentity headers) of
                None \<Rightarrow> Inl (BackendError ''Charging Station does not exist'')
              | Some chargingStation \<Rightarrow> Inr (chargingStation, tenant))))"

definition getConnectorFromID :: "ChargingStation \<Rightarrow> int \<Rightarrow> Connector option" where
  "getConnectorFromID chargingStation connectorId =
     find (\<lambda>c. co_connectorId c = connectorId) (cs_connectors chargingStation)"

definition freeConnector :: "Connector \<Rightarrow> Connector" where
  "freeConnector c = c\<lparr>
     co_currentInstantWatts := 0,
     co_currentTotalConsumptionWh := 0,
     co_currentTotalInactivitySecs := 0,
     co_currentInactivityStatus := INFO,
     co_currentStateOfCharge := 0,
     co_currentTransactionID := 0,
     co_currentTransactionDate := None,
     co_currentTagID := None,
     co_userID := None\<rparr>"

fun freeConnectorWithID :: "int \<Rightarrow> Connector list \<Rightarrow> Connector list" where
  "freeConnectorWithID connectorId [] = []"
| "freeConnectorWithID connectorId (c # cs) =
     (if co_connectorId c = connectorId then freeConnector c # cs
      else c # freeConnectorWithID connectorId cs)"

definition checkAndFreeChargingStationConnector :: "ChargingStation \<Rightarrow> int \<Rightarrow> ChargingStation" where
  \<comment> \<open>Modelled from the spec: \<^verbatim>\<open>OCPPUtils.checkAndFreeChargingStationConnector\<close> is not among
      the sources. 4.D.3: free the connector, that is zero its live fields and set its
      current transaction id to 0, the status unchanged; the live fields are those of 3.\<close>
  "checkAndFreeChargingStationConnector chargingStation connectorId =
     chargingStation\<lparr>cs_connectors :=
       freeConnectorWithID connectorId (cs_connectors chargingStation)\<rparr>"

text \<open>Lines 1851 to 1870. The difference to now in seconds is below 60 when it is below 60000 ms.\<close>

definition getStopTransactionTagId ::
  "collaborators \<Rightarrow> OCPPStopTransactionRequest \<Rightarrow> Transaction \<Rightarrow> string" where
  "getStopTransactionTagId E stopTransaction transaction =
     (case (case tx_remotestop transaction of
              None \<Rightarrow> None
            | Some remotestop \<Rightarrow>
                if now E - rs_timestamp remotestop < 60000 then Some (rs_tagID remotestop)
                else None) of
        Some tagID \<Rightarrow> tagID
      | None \<Rightarrow>
          if truthyString (st_idTag stopTransaction) then the (st_idTag stopTransaction)
          else tx_tagID transaction)"

definition updateTransactionWithConsumption ::
  "collaborators \<Rightarrow> Transaction \<Rightarrow> Consumption \<Rightarrow> Transaction" where
  \<comment> \<open>Modelled from the spec: \<^verbatim>\<open>OCPPUtils.updateTransactionWithConsumption\<close> is not among the
      sources. 4.E, steps 2 and 3: the running instant watts, total consumption, total
      inactivity, inactivity status and state of charge are those of the interval, and the
      anchor advances to the interval's end and cumulative reading.\<close>
  "updateTransactionWithConsumption E transaction consumption = transaction\<lparr>
     tx_currentInstantWatts := cn_instantWatts consumption,
     tx_currentTotalConsumptionWh := cn_cumulatedConsumptionWh consumption,
     tx_currentTotalInactivitySecs := cn_totalInactivitySecs consumption,
     tx_currentInactivityStatus :=
       getInactivityStatusLevel E (tx_chargeBoxID transaction) (tx_connectorId transaction)
         (cn_totalInactivitySecs consumption),
     tx_currentStateOfCharge := cn_stateOfCharge consumption,
     tx_lastConsumption := Some \<lparr>
       lc_value = tx_meterStart transaction + cn_cumulatedConsumptionWh consumption,
       lc_timestamp = cn_endedAt consumption\<rparr>\<rparr>"

definition updateTransactionWithStopTransactionAndStopMeterValues ::
  "Transaction \<Rightarrow> OCPPStopTransactionRequest \<Rightarrow> User option \<Rightarrow> User option \<Rightarrow> string \<Rightarrow> Transaction" where
  \<comment> \<open>Modelled from the spec:
      \<^verbatim>\<open>OCPPUtils.updateTransactionWithStopTransactionAndStopMeterValues\<close> is not among the
      sources. 4.D.3: it writes the stop block (timestamp, meterStop, tagId, totals,
      inactivity status, user, state of charge, signed data).\<close>
  "updateTransactionWithStopTransactionAndStopMeterValues transaction stopTransaction user
       alternateUser tagId =
     transaction\<lparr>tx_stop := Some \<lparr>
       sp_timestamp = st_timestamp stopTransaction,
       sp_meterStop = st_meterStop stopTransaction,
       sp_tagID = tagId,
       sp_userID = (case alternateUser of
                      Some a \<Rightarrow> Some (u_id a)
                    | None \<Rightarrow> map_option u_id user),
       sp_totalConsumptionWh = tx_currentTotalConsumptionWh transaction,
       sp_totalInactivitySecs = tx_currentTotalInactivitySecs transaction,
       sp_inactivityStatus = tx_currentInactivityStatus transaction,
       sp_totalDurationSecs = (st_timestamp stopTransaction - tx_timestamp transaction) div 1000,
       sp_extraInactivitySecs = None,
       sp_extraInactivityComputed = False,
       sp_stateOfCharge = tx_currentStateOfCharge transaction,
       sp_signedData = tx_currentSignedData transaction\<rparr>\<rparr>"

text \<open>
  Lines 968 to 980, the loop over the closing consumptions. A throw of the pricing or of
  the billing leaves the loop with the consumptions saved so far.
\<close>

fun closeWithConsumptions ::
  "collaborators \<Rightarrow> OCPPStopTransactionRequest \<Rightarrow> User option \<Rightarrow> User option \<Rightarrow> string \<Rightarrow>
   Consumption list \<Rightarrow> Transaction \<Rightarrow> storage \<Rightarrow> (error + Transaction) \<times> storage" where
  "closeWithConsumptions E stopTransaction user alternateUser tagId [] transaction db =
     (Inr transaction, db)"
| "closeWithConsumptions E stopTransaction user alternateUser tagId (consumption # rest)
       transaction db =
     (let updated = updateTransactionWithStopTransactionAndStopMeterValues
            (updateTransactionWithConsumption E transaction consumption)
            stopTransaction user alternateUser tagId in
      case (if cn_toPrice consumption then
              (case priceTransaction E updated consumption Action_STOP of
                 Some e \<Rightarrow> Some e
               | None \<Rightarrow> billTransaction E updated Action_STOP)
            else None) of
        Some e \<Rightarrow> (Inl e, db)
      | None \<Rightarrow>
          closeWithConsumptions E stopTransaction user alternateUser tagId rest updated
            (saveConsumption db consumption))"

text \<open>
  Lines 949 to 1044: what follows the already-stopped check. The station with the freed
  connector is saved first; \<^verbatim>\<open>notifyStopTransaction\<close> reads
  \<^verbatim>\<open>transaction.stop.totalConsumptionWh\<close> when a user is known, which throws a TypeError
  on a transaction that no consumption has given a stop block. The deletion of the
  transaction's charging profiles and the deferred smart-charging trigger that follow touch
  none of the collections modelled.
\<close>

definition freeAndCloseTransaction ::
  "collaborators \<Rightarrow> storage \<Rightarrow> ChargingStation \<Rightarrow> OCPPStopTransactionRequest \<Rightarrow> bool \<Rightarrow>
   Transaction \<Rightarrow> User option \<Rightarrow> User option \<Rightarrow> string \<Rightarrow>
   (error + OCPPAuthorizationStatus) \<times> storage" where
  "freeAndCloseTransaction E db chargingStation stopTransaction isSoftStop transaction user
       alternateUser tagId =
     (let freed = (checkAndFreeChargingStationConnector chargingStation
                     (tx_connectorId transaction))\<lparr>cs_lastSeen := now E\<rparr>;
          db1 = saveChargingStation db freed;
          stop1 =
            (if isSoftStop then
               stopTransaction\<lparr>st_meterStop :=
                 (case tx_lastConsumption transaction of
                    Some lastConsumption \<Rightarrow> lc_value lastConsumption
                  | None \<Rightarrow> 0)\<rparr>
             else stopTransaction);
          stopMeterValues = createTransactionStopMeterValues E freed transaction stop1
      in case createConsumptionsFromMeterValues E freed transaction stopMeterValues of
           Inl e \<Rightarrow> (Inl e, db1)
         | Inr consumptions \<Rightarrow>
             (case closeWithConsumptions E stop1 user alternateUser tagId consumptions
                     transaction db1 of
                (Inl e, db2) \<Rightarrow> (Inl e, db2)
              | (Inr closedTransaction, db2) \<Rightarrow>
                  (let db3 = saveTransaction db2 closedTransaction in
                   if user \<noteq> None \<and> tx_stop closedTransaction = None
                   then (Inl (TypeError ''transaction.stop is undefined''), db3)
                   else (Inr Auth_ACCEPTED, db3))))"

text \<open>Lines 888 to 1044, the body of the \<^verbatim>\<open>try\<close>.\<close>

definition stopTransactionBody ::
  "collaborators \<Rightarrow> storage \<Rightarrow> OCPPHeader \<Rightarrow> OCPPStopTransactionRequest \<Rightarrow> bool \<Rightarrow> bool \<Rightarrow>
   (error + OCPPAuthorizationStatus) \<times> storage" where
  "stopTransactionBody E db headers stopTransaction isSoftStop stoppedByCentralSystem =
     (case checkAndGetTenantAndChargingStation db headers of
        Inl e \<Rightarrow> (Inl e, db)
      | Inr (chargingStation, tenant) \<Rightarrow>
          if \<not> validateStopTransaction E chargingStation stopTransaction then
            (Inl (BackendError ''Invalid stop transaction''), db)
          else if st_transactionId stopTransaction = 0 then (Inr Auth_ACCEPTED, db)
          else
            (let stop0 = stopTransaction\<lparr>st_chargeBoxID := Some (cs_id chargingStation)\<rparr> in
             case getTransaction db (st_transactionId stop0) of
               None \<Rightarrow> (Inl (BackendError ''Transaction does not exist''), db)
             | Some transaction \<Rightarrow>
                 (let tagId = getStopTransactionTagId E stop0 transaction in
                  case (if \<not> stoppedByCentralSystem
                        then isAuthorizedToStopTransaction E chargingStation transaction tagId
                        else Inr (getUserByTagId E tagId, None)) of
                    Inl e \<Rightarrow> (Inl e, db)
                  | Inr (user, alternateUser) \<Rightarrow>
                      if tx_stop transaction \<noteq> None then
                        (Inl (BackendError ''Transaction has already been stopped''), db)
                      else freeAndCloseTransaction E db chargingStation stop0 isSoftStop
                             transaction user alternateUser tagId)))"

definition handleStopTransaction ::
  "collaborators \<Rightarrow> storage \<Rightarrow> OCPPHeader \<Rightarrow> OCPPStopTransactionRequest \<Rightarrow> bool \<Rightarrow> bool \<Rightarrow>
   OCPPAuthorizationStatus \<times> storage" where
  "handleStopTransaction E db headers stopTransaction isSoftStop stoppedByCentralSystem =
     (case stopTransactionBody E db headers stopTransaction isSoftStop stoppedByCentralSystem of
        (Inr status, db1) \<Rightarrow> (status, db1)
      | (Inl e, db1) \<Rightarrow> (Auth_INVALID, db1))"

section \<open>Cleanup of the active transactions of a connector\<close>









section \<open>Example data\<close>

text \<open>Concrete collaborators, stations, transactions and meter values, on which the theorems below are instantiated.\<close>

definition exampleCollaborators :: collaborators where
  "exampleCollaborators = \<lparr>
     now = 1000000,
     heartbeatIntervalOCPPSSecs = 60,
     heartbeatIntervalOCPPJSecs = 300,
     BOOT_NOTIFICATION_WAIT_TIME = 60,
     notifEndOfChargeEnabled = True,
     notifBeforeEndOfChargeEnabled = True,
     notifBeforeEndOfChargePercent = 85,
     MIN_LIMIT_PER_PHASE = 6,
     validateBootNotification = (\<lambda>bootNotification. True),
     validateStartTransaction = (\<lambda>chargingStation startTransaction. True),
     validateStopTransaction = (\<lambda>chargingStation stopTransaction. True),
     isAuthorizedToStartTransaction = (\<lambda>chargingStation tagID. Inr None),
     isAuthorizedToStopTransaction = (\<lambda>chargingStation transaction tagId. Inr (None, None)),
     getUserByTagId = (\<lambda>tagId. None),
     getChargingStationCurrentType = (\<lambda>chargingStation connectorId. Some AC),
     getNumberOfConnectedPhases = (\<lambda>chargingStation connectorId. 3),
     getInactivityStatusLevel = (\<lambda>chargeBoxID connectorId secs. if secs < 1800 then INFO else WARNING),
     isEnergyActiveImportMeterValue = (\<lambda>meterValue.
        at_measurand (mv_attribute meterValue) = ENERGY_ACTIVE_IMPORT_REGISTER),
     templateConnectors = (\<lambda>chargingStation. None),
     manualConnectors = (\<lambda>chargingStation. cs_connectors chargingStation),
     createTransactionStopMeterValues = (\<lambda>chargingStation transaction stopTransaction. []),
     createConsumptionsFromMeterValues = (\<lambda>chargingStation transaction meterValues. Inr []),
     priceTransaction = (\<lambda>transaction consumption action. None),
     billTransaction = (\<lambda>transaction action. None)\<rparr>"

definition exampleConnector :: Connector where
  "exampleConnector = \<lparr>
     co_connectorId = 1, co_status = CHARGING, co_errorCode = ''NoError'', co_info = None,
     co_vendorErrorCode = None, co_statusLastChangedOn = None, co_currentTransactionID = 42,
     co_currentTransactionDate = Some 500000, co_currentTagID = Some ''TAG1'',
     co_userID = Some ''U1'', co_currentInstantWatts = 7000, co_currentTotalConsumptionWh = 1200,
     co_currentTotalInactivitySecs = 0, co_currentInactivityStatus = INFO,
     co_currentStateOfCharge = 80, co_power = 22000\<rparr>"

definition exampleStation :: ChargingStation where
  "exampleStation = \<lparr>
     cs_id = ''CS1'', cs_chargePointVendor = ''Schneider'', cs_chargePointModel = ''EVlink'',
     cs_chargePointSerialNumber = Some ''X'', cs_chargeBoxSerialNumber = None,
     cs_firmwareVersion = Some ''1.0'', cs_endpoint = None, cs_chargingStationURL = None,
     cs_currentIPAddress = Some ''10.0.0.1'', cs_ocppVersion = Some VERSION_16,
     cs_ocppProtocol = Some JSON,
     cs_registrationStatus = Reg_ACCEPTED, cs_issuer = True, cs_public = False,
     cs_deleted = False, cs_powerLimitUnit = Some AMPERE, cs_createdOn = Some 1000,
     cs_lastReboot = 2000, cs_lastSeen = 3000, cs_siteAreaID = None, cs_siteID = None,
     cs_coordinates = [], cs_connectors = [exampleConnector]\<rparr>"

definition exampleTransaction :: Transaction where
  "exampleTransaction = \<lparr>
     tx_id = 42, tx_chargeBoxID = ''CS1'', tx_connectorId = 1, tx_tagID = ''TAG1'',
     tx_userID = Some ''U1'', tx_user = Some \<lparr>u_id = ''U1'', u_issuer = True\<rparr>,
     tx_timestamp = 500000, tx_meterStart = 0, tx_numberOfMeterValues = 3,
     tx_lastConsumption = Some \<lparr>lc_value = 1200, lc_timestamp = 680000\<rparr>,
     tx_stateOfCharge = 20, tx_signedData = [], tx_currentSignedData = [],
     tx_currentStateOfCharge = 80, tx_currentTotalConsumptionWh = 1200,
     tx_currentTotalInactivitySecs = 0, tx_currentInactivityStatus = INFO,
     tx_currentInstantWatts = 7000, tx_currentInstantWattsL1 = 2300,
     tx_currentInstantWattsL2 = 2300, tx_currentInstantWattsL3 = 2400,
     tx_currentInstantWattsDC = 0, tx_currentInstantVolts = 230, tx_currentInstantVoltsL1 = 230,
     tx_currentInstantVoltsL2 = 231, tx_currentInstantVoltsL3 = 229, tx_currentInstantVoltsDC = 0,
     tx_currentInstantAmps = 30, tx_currentInstantAmpsL1 = 10, tx_currentInstantAmpsL2 = 10,
     tx_currentInstantAmpsL3 = 10, tx_currentInstantAmpsDC = 0,
     tx_transactionEndReceived = False, tx_remotestop = None, tx_stop = None\<rparr>"

definition exampleMeterValue :: "OCPPReadingContext \<Rightarrow> int \<Rightarrow> real \<Rightarrow> OCPPNormalizedMeterValue" where
  "exampleMeterValue c ts v = \<lparr>
     mv_chargeBoxID = ''CS1'', mv_connectorId = 1, mv_transactionId = 42, mv_timestamp = ts,
     mv_attribute = \<lparr>at_context = c, at_format = RAW,
       at_measurand = ENERGY_ACTIVE_IMPORT_REGISTER, at_location = OUTLET,
       at_unit = WATT_HOUR, at_phase = None\<rparr>,
     mv_value = Num v\<rparr>"

definition exampleStop :: TransactionStop where
  "exampleStop = \<lparr>
     sp_timestamp = 900000, sp_meterStop = 1500, sp_tagID = ''TAG1'', sp_userID = Some ''U1'',
     sp_totalConsumptionWh = 1500, sp_totalInactivitySecs = 120, sp_inactivityStatus = INFO,
     sp_totalDurationSecs = 400, sp_extraInactivitySecs = None,
     sp_extraInactivityComputed = False, sp_stateOfCharge = 80, sp_signedData = []\<rparr>"

definition exampleConsumption :: "int \<Rightarrow> real \<Rightarrow> Consumption" where
  "exampleConsumption startedAt wh = \<lparr>
     cn_transactionId = 42, cn_startedAt = startedAt, cn_endedAt = startedAt + 60000,
     cn_consumptionWh = wh, cn_instantWatts = wh * 60, cn_cumulatedConsumptionWh = 1200,
     cn_totalInactivitySecs = 0, cn_stateOfCharge = 80, cn_limitSource = None,
     cn_limitAmps = None, cn_toPrice = True\<rparr>"

definition exampleStorage :: storage where
  "exampleStorage = \<lparr>
     db_tenants = [''T1'' \<mapsto> \<lparr>tn_id = ''T1'', tn_subdomain = ''t1''\<rparr>],
     db_chargingStations = [''CS1'' \<mapsto> exampleStation],
     db_registrationTokens = Map.empty,
     db_siteAreas = Map.empty,
     db_transactions = [exampleTransaction],
     db_consumptions = [exampleConsumption 500000 600, exampleConsumption 560000 0,
        exampleConsumption 620000 0, exampleConsumption 680000 0],
     db_bootNotifications = []\<rparr>"

definition exampleStoppedTransaction :: Transaction where
  "exampleStoppedTransaction = exampleTransaction\<lparr>tx_stop := Some exampleStop\<rparr>"

definition exampleStoppedStorage :: storage where
  "exampleStoppedStorage = exampleStorage\<lparr>db_transactions := [exampleStoppedTransaction]\<rparr>"


definition exampleHeader :: OCPPHeader where
  "exampleHeader = \<lparr>
     hd_tenantID = ''T1'', hd_chargeBoxIdentity = ''CS1'',
     hd_currentIPAddress = Some ''10.0.0.1'', hd_ocppProtocol = Some JSON,
     hd_ocppVersion = Some VERSION_16, hd_token = None, hd_From_Address = None,
     hd_chargingStationURL = None\<rparr>"

definition exampleStopRequest :: "int \<Rightarrow> OCPPStopTransactionRequest" where
  "exampleStopRequest transactionId = \<lparr>
     st_transactionId = transactionId, st_idTag = Some ''TAG1'', st_meterStop = 1500,
     st_timestamp = 900000, st_chargeBoxID = None\<rparr>"

definition exampleFailingCollaborators :: collaborators where
  "exampleFailingCollaborators = exampleCollaborators\<lparr>
     createConsumptionsFromMeterValues :=
       (\<lambda>chargingStation transaction meterValues. Inl (BackendError ''Meter value in the past''))\<rparr>"

definition exampleBootNotification :: "string option \<Rightarrow> OCPPBootNotificationRequest" where
  "exampleBootNotification serialNumber = \<lparr>
     bn_chargePointVendor = ''Schneider'', bn_chargePointModel = ''EVlink'',
     bn_chargePointSerialNumber = serialNumber, bn_chargeBoxSerialNumber = None,
     bn_firmwareVersion = Some ''1.1''\<rparr>"

definition exampleBootHeader :: "string \<Rightarrow> string option \<Rightarrow> OCPPHeader" where
  "exampleBootHeader chargeBoxIdentity token = exampleHeader\<lparr>
     hd_chargeBoxIdentity := chargeBoxIdentity, hd_token := token\<rparr>"

definition exampleTokenStorage :: "RegistrationToken \<Rightarrow> storage" where
  "exampleTokenStorage token = exampleStorage\<lparr>
     db_registrationTokens := [''TOKEN'' \<mapsto> token],
     db_siteAreas := [''SA1'' \<mapsto> \<lparr>sa_siteID = Some ''S1'', sa_coordinates = [4.8, 45.7]\<rparr>]\<rparr>"







section \<open>Properties of the service\<close>

subsection \<open>Clock samples\<close>

text \<open>
  Claim C8. A meter value with context Sample.Clock is to be removed from the list of a
  station that is not an ABB station on OCPP 1.5 before consumptions are built. The filter
  removes nothing, from no station's list: the callback's Promise is truthy whatever it
  resolves to, so every value is kept, a clock sample included.
\<close>

theorem filter_keeps_every_value:
  "filterMeterValuesOnSpecificChargingStations chargingStation values = values"
  by (simp add: filterMeterValuesOnSpecificChargingStations_def removeSampleClock_def)

text \<open>
  The station below is a Schneider station on OCPP 1.6 and the second of its three values
  is a clock sample: the filter returns the three values.
\<close>

theorem filter_keeps_Sample_Clock:
  "cs_chargePointVendor exampleStation \<noteq> ChargerVendor_ABB \<and>
   at_context (mv_attribute (exampleMeterValue SAMPLE_CLOCK 710000 1200)) = SAMPLE_CLOCK \<and>
   filterMeterValuesOnSpecificChargingStations exampleStation
     [exampleMeterValue SAMPLE_PERIODIC 680000 1200, exampleMeterValue SAMPLE_CLOCK 710000 1200,
      exampleMeterValue SAMPLE_PERIODIC 740000 1500] =
     [exampleMeterValue SAMPLE_PERIODIC 680000 1200, exampleMeterValue SAMPLE_CLOCK 710000 1200,
      exampleMeterValue SAMPLE_PERIODIC 740000 1500]"
  using filter_keeps_every_value [of exampleStation
      "[exampleMeterValue SAMPLE_PERIODIC 680000 1200, exampleMeterValue SAMPLE_CLOCK 710000 1200,
        exampleMeterValue SAMPLE_PERIODIC 740000 1500]"]
  by (simp add: exampleStation_def exampleMeterValue_def ChargerVendor_ABB_def)

subsection \<open>The first Transaction.End value\<close>

lemma dispatch_flag:
  "tx_transactionEndReceived (dispatchMeterValue E cs t mv) = tx_transactionEndReceived t"
  by (simp add: dispatchMeterValue_def updateSignedData_def setVoltage_def setPower_def
      setAmperage_def Let_def split: option.splits CurrentType.splits OCPPPhase.splits)

lemma foldl_dispatch_flag:
  "tx_transactionEndReceived (foldl (dispatchMeterValue E cs) t mvs) = tx_transactionEndReceived t"
  by (induction mvs arbitrary: t) (simp_all add: dispatch_flag)

lemma update_after_end:
  "tx_transactionEndReceived t \<Longrightarrow>
   updateTransactionWithMeterValues E cs t mvs = foldl (dispatchMeterValue E cs) t mvs"
  unfolding updateTransactionWithMeterValues_def
  by (induction mvs arbitrary: t) (simp_all add: updateTransactionWithMeterValue_def dispatch_flag)

lemma update_before_end:
  "\<forall>mv \<in> set mvs. at_context (mv_attribute mv) \<noteq> TRANSACTION_END \<Longrightarrow>
   updateTransactionWithMeterValues E cs t mvs = foldl (dispatchMeterValue E cs) t mvs"
  unfolding updateTransactionWithMeterValues_def
  by (induction mvs arbitrary: t) (simp_all add: updateTransactionWithMeterValue_def)

lemma update_append:
  "updateTransactionWithMeterValues E cs t (xs @ ys) =
   updateTransactionWithMeterValues E cs (updateTransactionWithMeterValues E cs t xs) ys"
  by (simp add: updateTransactionWithMeterValues_def)

lemma clear_facts:
  "instantValues (clearInstantValues u) = replicate 15 0"
  "tx_transactionEndReceived (clearInstantValues u)"
  "tx_currentStateOfCharge (clearInstantValues u) = tx_currentStateOfCharge u"
  by (simp_all add: instantValues_def clearInstantValues_def eval_nat_numeral)

text \<open>
  Claim C5, as stated, has the first Transaction.End value zero the state of charge together
  with the instant watts, volts and amps. The transaction below holds a state of charge
  of 80 and has seen no Transaction.End value; after an energy reading with context
  Transaction.End the flag is set and the state of charge is still 80.
\<close>

theorem state_of_charge_not_cleared:
  "\<not> tx_transactionEndReceived exampleTransaction \<and>
   tx_transactionEndReceived (updateTransactionWithMeterValues exampleCollaborators exampleStation
      exampleTransaction [exampleMeterValue TRANSACTION_END 800000 1500]) \<and>
   tx_currentStateOfCharge (updateTransactionWithMeterValues exampleCollaborators exampleStation
      exampleTransaction [exampleMeterValue TRANSACTION_END 800000 1500]) = 80"
  by (simp add: updateTransactionWithMeterValues_def updateTransactionWithMeterValue_def
      dispatchMeterValue_def updateSignedData_def clearInstantValues_def
      exampleTransaction_def exampleMeterValue_def exampleCollaborators_def)

text \<open>
  Claim C5, amended. For a transaction that has not yet seen a Transaction.End value and a
  list of meter values whose first Transaction.End value is \<open>mv\<close>, processing the list is
  plain dispatching of every value with the clearing applied exactly once, immediately
  before \<open>mv\<close> is dispatched: values before it and values after it (further
  Transaction.End values included) clear nothing. The clearing sets the flag and sets the
  fifteen instant watts, volts and amps (total, L1, L2, L3, DC) to 0; it leaves the state
  of charge as it was.
\<close>

theorem first_Transaction_End_clears_once:
  assumes "\<not> tx_transactionEndReceived t"
    and "\<forall>v \<in> set pre. at_context (mv_attribute v) \<noteq> TRANSACTION_END"
    and "at_context (mv_attribute mv) = TRANSACTION_END"
  shows "updateTransactionWithMeterValues E cs t (pre @ mv # post) =
           foldl (dispatchMeterValue E cs)
             (dispatchMeterValue E cs
                (clearInstantValues (foldl (dispatchMeterValue E cs) t pre)) mv) post \<and>
         tx_transactionEndReceived (updateTransactionWithMeterValues E cs t (pre @ mv # post)) \<and>
         instantValues (clearInstantValues t) = replicate 15 0 \<and>
         tx_transactionEndReceived (clearInstantValues t) \<and>
         tx_currentStateOfCharge (clearInstantValues t) = tx_currentStateOfCharge t"
proof -
  let ?u = "foldl (dispatchMeterValue E cs) t pre"
  let ?w = "dispatchMeterValue E cs (clearInstantValues ?u) mv"
  have pre: "updateTransactionWithMeterValues E cs t pre = ?u"
    using assms(2) by (rule update_before_end)
  have open_u: "\<not> tx_transactionEndReceived ?u"
    using assms(1) by (simp add: foldl_dispatch_flag)
  have one: "updateTransactionWithMeterValues E cs ?u [mv] = ?w"
    using open_u assms(3)
    by (simp add: updateTransactionWithMeterValues_def updateTransactionWithMeterValue_def)
  have flag_w: "tx_transactionEndReceived ?w"
    by (simp add: dispatch_flag clear_facts)
  have "updateTransactionWithMeterValues E cs t (pre @ mv # post) =
        updateTransactionWithMeterValues E cs ?w post"
    using pre one update_append [of E cs t pre "mv # post"]
      update_append [of E cs ?u "[mv]" post] by simp
  moreover have "updateTransactionWithMeterValues E cs ?w post =
        foldl (dispatchMeterValue E cs) ?w post"
    using flag_w by (rule update_after_end)
  ultimately show ?thesis
    using flag_w by (simp add: clear_facts foldl_dispatch_flag)
qed

theorem first_Transaction_End_clears_once_witness:
  "\<not> tx_transactionEndReceived exampleTransaction \<and>
   at_context (mv_attribute (exampleMeterValue SAMPLE_PERIODIC 740000 1500)) \<noteq> TRANSACTION_END \<and>
   at_context (mv_attribute (exampleMeterValue TRANSACTION_END 800000 1500)) = TRANSACTION_END \<and>
   tx_transactionEndReceived (updateTransactionWithMeterValues exampleCollaborators exampleStation
      exampleTransaction
      ([exampleMeterValue SAMPLE_PERIODIC 740000 1500] @
       exampleMeterValue TRANSACTION_END 800000 1500 #
       [exampleMeterValue TRANSACTION_END 800000 1500])) \<and>
   instantValues (clearInstantValues exampleTransaction) = replicate 15 0"
proof -
  have h1: "\<not> tx_transactionEndReceived exampleTransaction"
    by (simp add: exampleTransaction_def)
  have h2: "\<forall>v \<in> set [exampleMeterValue SAMPLE_PERIODIC 740000 1500].
      at_context (mv_attribute v) \<noteq> TRANSACTION_END"
    by (simp add: exampleMeterValue_def)
  have h3: "at_context (mv_attribute (exampleMeterValue TRANSACTION_END 800000 1500)) =
      TRANSACTION_END"
    by (simp add: exampleMeterValue_def)
  note inst = first_Transaction_End_clears_once [OF h1 h2 h3, of exampleCollaborators
      exampleStation "[exampleMeterValue TRANSACTION_END 800000 1500]"]
  have c1: "tx_transactionEndReceived (updateTransactionWithMeterValues exampleCollaborators
      exampleStation exampleTransaction
      ([exampleMeterValue SAMPLE_PERIODIC 740000 1500] @
       exampleMeterValue TRANSACTION_END 800000 1500 #
       [exampleMeterValue TRANSACTION_END 800000 1500]))"
    using inst by (elim conjE)
  have c2: "instantValues (clearInstantValues exampleTransaction) = replicate 15 0"
    using inst by (elim conjE)
  have h2': "at_context (mv_attribute (exampleMeterValue SAMPLE_PERIODIC 740000 1500)) \<noteq>
      TRANSACTION_END"
    by (simp add: exampleMeterValue_def)
  show ?thesis
    by (intro conjI) (rule h1 h2' h3 c1 c2)+
qed

subsection \<open>End-of-charge policy\<close>







subsection \<open>Extra inactivity\<close>










subsection \<open>StopTransaction\<close>

lemma getStopTransactionTagId_chargeBoxID:
  "getStopTransactionTagId E (s\<lparr>st_chargeBoxID := x\<rparr>) t = getStopTransactionTagId E s t"
  by (simp add: getStopTransactionTagId_def split: option.splits)

lemma closeWithConsumptions_storage:
  "closeWithConsumptions E s u a tag cons t db = (r, db2) \<Longrightarrow>
   db_transactions db2 = db_transactions db \<and> db_chargingStations db2 = db_chargingStations db"
proof (induction cons arbitrary: t db)
  case Nil
  then show ?case by auto
next
  case (Cons x xs)
  let ?u = "updateTransactionWithStopTransactionAndStopMeterValues
      (updateTransactionWithConsumption E t x) s u a tag"
  have sv: "db_transactions (saveConsumption db x) = db_transactions db"
    "db_chargingStations (saveConsumption db x) = db_chargingStations db"
    by (simp_all add: saveConsumption_def)
  show ?case
  proof (cases "closeWithConsumptions E s u a tag xs ?u (saveConsumption db x) = (r, db2)")
    case True
    from Cons.IH [OF True] show ?thesis unfolding sv .
  next
    case False
    with Cons.prems have "db2 = db"
      by (auto simp: Let_def split: option.splits if_splits)
    then show ?thesis by simp
  qed
qed

lemma closeWithConsumptions_identity:
  "closeWithConsumptions E s u a tag cons t db = (Inr c, db2) \<Longrightarrow>
   tx_id c = tx_id t \<and> tx_chargeBoxID c = tx_chargeBoxID t \<and> tx_connectorId c = tx_connectorId t"
proof (induction cons arbitrary: t db)
  case Nil
  then show ?case by auto
next
  case (Cons x xs)
  let ?u = "updateTransactionWithStopTransactionAndStopMeterValues
      (updateTransactionWithConsumption E t x) s u a tag"
  have same: "tx_id ?u = tx_id t" "tx_chargeBoxID ?u = tx_chargeBoxID t"
    "tx_connectorId ?u = tx_connectorId t"
    by (simp_all add: updateTransactionWithStopTransactionAndStopMeterValues_def
        updateTransactionWithConsumption_def)
  from Cons.prems have "closeWithConsumptions E s u a tag xs ?u (saveConsumption db x) = (Inr c, db2)"
    by (auto simp: Let_def split: option.splits if_splits)
  from Cons.IH [OF this] show ?case unfolding same .
qed

lemma closeWithConsumptions_stopped:
  "closeWithConsumptions E s u a tag cons t db = (Inr c, db2) \<Longrightarrow> tx_stop t \<noteq> None \<Longrightarrow>
   tx_stop c \<noteq> None"
proof (induction cons arbitrary: t db)
  case Nil
  then show ?case by auto
next
  case (Cons x xs)
  let ?u = "updateTransactionWithStopTransactionAndStopMeterValues
      (updateTransactionWithConsumption E t x) s u a tag"
  have st: "tx_stop ?u \<noteq> None"
    by (simp add: updateTransactionWithStopTransactionAndStopMeterValues_def)
  from Cons.prems(1) have "closeWithConsumptions E s u a tag xs ?u (saveConsumption db x) = (Inr c, db2)"
    by (auto simp: Let_def split: option.splits if_splits)
  from Cons.IH [OF this st] show ?case .
qed

lemma closeWithConsumptions_no_stop:
  assumes "closeWithConsumptions E s u a tag cons t db = (Inr c, db2)" and "tx_stop c = None"
  shows "c = t"
proof (cases cons)
  case Nil
  with assms show ?thesis by simp
next
  case (Cons x xs)
  let ?u = "updateTransactionWithStopTransactionAndStopMeterValues
      (updateTransactionWithConsumption E t x) s u a tag"
  have st: "tx_stop ?u \<noteq> None"
    by (simp add: updateTransactionWithStopTransactionAndStopMeterValues_def)
  from assms(1) Cons have "closeWithConsumptions E s u a tag xs ?u (saveConsumption db x) = (Inr c, db2)"
    by (auto simp: Let_def split: option.splits if_splits)
  from closeWithConsumptions_stopped [OF this st] assms(2) show ?thesis by simp
qed

lemma find_putTransaction:
  "find (\<lambda>x. tx_id x = tx_id t) (putTransaction t xs) = Some t"
  by (induction xs) auto

lemma getTransaction_id: "getTransaction db i = Some t \<Longrightarrow> tx_id t = i"
  by (auto simp: getTransaction_def find_Some_iff)

lemma freeAndClose_effect:
  assumes "freeAndCloseTransaction E db cs s soft t u a tag = (r, db')"
  shows "db_chargingStations db' =
           (db_chargingStations db)(cs_id cs \<mapsto>
              (checkAndFreeChargingStationConnector cs (tx_connectorId t))\<lparr>cs_lastSeen := now E\<rparr>)"
    and "db_transactions db' = db_transactions db \<or>
         (\<exists>c. tx_id c = tx_id t \<and> tx_chargeBoxID c = tx_chargeBoxID t \<and>
              tx_connectorId c = tx_connectorId t \<and> (r \<noteq> Inr Auth_ACCEPTED \<longrightarrow> c = t) \<and>
              db_transactions db' = putTransaction c (db_transactions db))"
proof -
  let ?freed = "(checkAndFreeChargingStationConnector cs (tx_connectorId t))\<lparr>cs_lastSeen := now E\<rparr>"
  let ?db1 = "saveChargingStation db ?freed"
  let ?s1 = "if soft then s\<lparr>st_meterStop :=
                 (case tx_lastConsumption t of
                    Some lastConsumption \<Rightarrow> lc_value lastConsumption
                  | None \<Rightarrow> 0)\<rparr> else s"
  let ?mvs = "createTransactionStopMeterValues E ?freed t ?s1"
  have id: "cs_id ?freed = cs_id cs"
    by (simp add: checkAndFreeChargingStationConnector_def)
  have st1: "db_chargingStations ?db1 = (db_chargingStations db)(cs_id cs \<mapsto> ?freed)"
    and tr1: "db_transactions ?db1 = db_transactions db"
    using id by (simp_all add: saveChargingStation_def)
  show "db_chargingStations db' = (db_chargingStations db)(cs_id cs \<mapsto> ?freed)"
    and "db_transactions db' = db_transactions db \<or>
         (\<exists>c. tx_id c = tx_id t \<and> tx_chargeBoxID c = tx_chargeBoxID t \<and>
              tx_connectorId c = tx_connectorId t \<and> (r \<noteq> Inr Auth_ACCEPTED \<longrightarrow> c = t) \<and>
              db_transactions db' = putTransaction c (db_transactions db))"
  proof (atomize (full), cases "createConsumptionsFromMeterValues E ?freed t ?mvs")
    case (Inl e)
    with assms have "db' = ?db1"
      by (simp add: freeAndCloseTransaction_def Let_def)
    with st1 tr1 show "db_chargingStations db' = (db_chargingStations db)(cs_id cs \<mapsto> ?freed) \<and>
        (db_transactions db' = db_transactions db \<or>
         (\<exists>c. tx_id c = tx_id t \<and> tx_chargeBoxID c = tx_chargeBoxID t \<and>
              tx_connectorId c = tx_connectorId t \<and> (r \<noteq> Inr Auth_ACCEPTED \<longrightarrow> c = t) \<and>
              db_transactions db' = putTransaction c (db_transactions db)))"
      by simp
  next
    case (Inr cons)
    obtain r2 db2 where cl: "closeWithConsumptions E ?s1 u a tag cons t ?db1 = (r2, db2)"
      by (cases "closeWithConsumptions E ?s1 u a tag cons t ?db1")
    note pres = closeWithConsumptions_storage [OF cl]
    show "db_chargingStations db' = (db_chargingStations db)(cs_id cs \<mapsto> ?freed) \<and>
        (db_transactions db' = db_transactions db \<or>
         (\<exists>c. tx_id c = tx_id t \<and> tx_chargeBoxID c = tx_chargeBoxID t \<and>
              tx_connectorId c = tx_connectorId t \<and> (r \<noteq> Inr Auth_ACCEPTED \<longrightarrow> c = t) \<and>
              db_transactions db' = putTransaction c (db_transactions db)))"
    proof (cases r2)
      case (Inl e)
      with assms Inr cl have "db' = db2"
        by (simp add: freeAndCloseTransaction_def Let_def)
      with pres st1 tr1 show ?thesis by simp
    next
      case r2: (Inr c)
      with assms Inr cl have db': "db' = saveTransaction db2 c"
        and r: "r = (if u \<noteq> None \<and> tx_stop c = None
                     then Inl (TypeError ''transaction.stop is undefined'')
                     else Inr Auth_ACCEPTED)"
        by (auto simp: freeAndCloseTransaction_def Let_def split: if_splits)
      have "r \<noteq> Inr Auth_ACCEPTED \<longrightarrow> c = t"
        using r closeWithConsumptions_no_stop [OF cl [unfolded r2]] by (auto split: if_splits)
      then have nonacc: "r \<noteq> Inr Auth_ACCEPTED \<longrightarrow> c = t" .
      have A: "db_chargingStations db' = (db_chargingStations db)(cs_id cs \<mapsto> ?freed)"
        using db' pres st1 by (simp add: saveTransaction_def)
      have B: "db_transactions db' = putTransaction c (db_transactions db)"
        using db' pres tr1 by (simp add: saveTransaction_def)
      have C: "tx_id c = tx_id t \<and> tx_chargeBoxID c = tx_chargeBoxID t \<and>
          tx_connectorId c = tx_connectorId t"
        using closeWithConsumptions_identity [OF cl [unfolded r2]] .
      from A B C nonacc show ?thesis by blast
    qed
  qed
qed

lemma stopTransactionBody_resolved:
  assumes "checkAndGetTenantAndChargingStation db headers = Inr (cs, tenant)"
    and "validateStopTransaction E cs s"
    and "st_transactionId s \<noteq> 0"
    and "getTransaction db (st_transactionId s) = Some t"
  shows "stopTransactionBody E db headers s soft central =
     (case (if \<not> central
            then isAuthorizedToStopTransaction E cs t (getStopTransactionTagId E s t)
            else Inr (getUserByTagId E (getStopTransactionTagId E s t), None)) of
        Inl e \<Rightarrow> (Inl e, db)
      | Inr (user, alternateUser) \<Rightarrow>
          if tx_stop t \<noteq> None then
            (Inl (BackendError ''Transaction has already been stopped''), db)
          else freeAndCloseTransaction E db cs (s\<lparr>st_chargeBoxID := Some (cs_id cs)\<rparr>) soft
                 t user alternateUser (getStopTransactionTagId E s t))"
  using assms
  by (simp add: stopTransactionBody_def Let_def getStopTransactionTagId_chargeBoxID)


lemma handleStopTransaction_open:
  assumes res: "checkAndGetTenantAndChargingStation db headers = Inr (cs, tenant)"
    and valid: "validateStopTransaction E cs s"
    and nonzero: "st_transactionId s \<noteq> 0"
    and found: "getTransaction db (st_transactionId s) = Some t"
    and "open": "tx_stop t = None"
    and auth: "(if \<not> central
            then isAuthorizedToStopTransaction E cs t (getStopTransactionTagId E s t)
            else Inr (getUserByTagId E (getStopTransactionTagId E s t), None)) = Inr (user, alt)"
  shows "handleStopTransaction E db headers s soft central =
     (case freeAndCloseTransaction E db cs (s\<lparr>st_chargeBoxID := Some (cs_id cs)\<rparr>) soft
             t user alt (getStopTransactionTagId E s t) of
        (Inr status, db1) \<Rightarrow> (status, db1)
      | (Inl e, db1) \<Rightarrow> (Auth_INVALID, db1))"
  unfolding handleStopTransaction_def
    stopTransactionBody_resolved [OF res valid nonzero found, of soft central] auth
  using "open" by simp

lemma example_resolved:
  "checkAndGetTenantAndChargingStation exampleStorage exampleHeader =
     Inr (exampleStation, \<lparr>tn_id = ''T1'', tn_subdomain = ''t1''\<rparr>)"
  "checkAndGetTenantAndChargingStation exampleStoppedStorage exampleHeader =
     Inr (exampleStation, \<lparr>tn_id = ''T1'', tn_subdomain = ''t1''\<rparr>)"
  by (simp_all add: checkAndGetTenantAndChargingStation_def getTenant_def getChargingStation_def
      exampleStorage_def exampleStoppedStorage_def exampleHeader_def)

text \<open>
  Claim C1. A StopTransaction request whose transaction id (not the placeholder 0, which is
  answered before any transaction is loaded) refers to a stored transaction with a stop
  block is answered Invalid, and the storage after the handler is the storage before it:
  no transaction, connector or station is written. This holds whatever the header resolves
  to, whatever the validation and the authorization answer, in both stop modes.
\<close>

theorem already_stopped_rejected:
  assumes found: "getTransaction db (st_transactionId stopTransaction) = Some transaction"
    and stopped: "tx_stop transaction \<noteq> None"
    and nonzero: "st_transactionId stopTransaction \<noteq> 0"
  shows "handleStopTransaction E db headers stopTransaction isSoftStop stoppedByCentralSystem =
           (Auth_INVALID, db)"
proof (cases "checkAndGetTenantAndChargingStation db headers")
  case (Inl e)
  then show ?thesis
    by (simp add: handleStopTransaction_def stopTransactionBody_def)
next
  case (Inr p)
  obtain cs tenant where p: "p = (cs, tenant)" by (cases p)
  show ?thesis
  proof (cases "validateStopTransaction E cs stopTransaction")
    case False
    with Inr p show ?thesis
      by (simp add: handleStopTransaction_def stopTransactionBody_def)
  next
    case True
    note body = stopTransactionBody_resolved [OF Inr [unfolded p] True nonzero found,
        of isSoftStop stoppedByCentralSystem]
    show ?thesis
      unfolding handleStopTransaction_def body using stopped
      by (simp split: sum.splits prod.splits)
  qed
qed

theorem already_stopped_rejected_witness:
  "getTransaction exampleStoppedStorage (st_transactionId (exampleStopRequest 42)) =
     Some exampleStoppedTransaction \<and>
   tx_stop exampleStoppedTransaction = Some exampleStop \<and>
   handleStopTransaction exampleCollaborators exampleStoppedStorage exampleHeader
     (exampleStopRequest 42) False False = (Auth_INVALID, exampleStoppedStorage)"
proof -
  have found: "getTransaction exampleStoppedStorage (st_transactionId (exampleStopRequest 42)) =
      Some exampleStoppedTransaction"
    by (simp add: getTransaction_def exampleStoppedStorage_def exampleStopRequest_def
        exampleStoppedTransaction_def exampleTransaction_def)
  have stop: "tx_stop exampleStoppedTransaction = Some exampleStop"
    by (simp add: exampleStoppedTransaction_def)
  then have stopped: "tx_stop exampleStoppedTransaction \<noteq> None" by simp
  have nonzero: "st_transactionId (exampleStopRequest 42) \<noteq> 0"
    by (simp add: exampleStopRequest_def)
  note r = already_stopped_rejected [OF found stopped nonzero, of exampleCollaborators
      exampleHeader False False]
  show ?thesis by (intro conjI) (rule found stop r)+
qed

text \<open>
  Claim C9. A StopTransaction request with transaction id 0, arriving for a station that
  the header resolves and passing the validation of its payload (the two steps every
  handler starts with), is answered Accepted, and the storage after the handler is the
  storage before it: no transaction is loaded or written, no connector freed, no station
  changed.
\<close>

theorem transaction_id_zero_accepted:
  assumes "checkAndGetTenantAndChargingStation db headers = Inr (chargingStation, tenant)"
    and "validateStopTransaction E chargingStation stopTransaction"
    and "st_transactionId stopTransaction = 0"
  shows "handleStopTransaction E db headers stopTransaction isSoftStop stoppedByCentralSystem =
           (Auth_ACCEPTED, db)"
  using assms by (simp add: handleStopTransaction_def stopTransactionBody_def)

theorem transaction_id_zero_accepted_witness:
  "st_transactionId (exampleStopRequest 0) = 0 \<and>
   handleStopTransaction exampleCollaborators exampleStorage exampleHeader
     (exampleStopRequest 0) False False = (Auth_ACCEPTED, exampleStorage)"
proof -
  have valid: "validateStopTransaction exampleCollaborators exampleStation (exampleStopRequest 0)"
    by (simp add: exampleCollaborators_def)
  have zero: "st_transactionId (exampleStopRequest 0) = 0"
    by (simp add: exampleStopRequest_def)
  note r = transaction_id_zero_accepted [OF example_resolved(1) valid zero, of False False]
  show ?thesis by (intro conjI) (rule zero r)+
qed

text \<open>
  Claim C10. For a StopTransaction request on a stored transaction without a stop block,
  from a resolved station, valid and authorized (or stopped by the central system), the
  station found in storage after the handler is the station with the connector of the
  transaction freed and lastSeen set to now, whether the handler answers Accepted or
  Invalid; the freed connector has current transaction id 0 and no tag, user, instant
  watts or total consumption. When the answer is Invalid, the transaction found in storage
  is the transaction as it was, without a stop block: the station write is not undone.
\<close>

theorem connector_freed_before_closing:
  assumes res: "checkAndGetTenantAndChargingStation db headers = Inr (cs, tenant)"
    and valid: "validateStopTransaction E cs s"
    and nonzero: "st_transactionId s \<noteq> 0"
    and found: "getTransaction db (st_transactionId s) = Some t"
    and "open": "tx_stop t = None"
    and auth: "central \<or>
         \<not> isl (isAuthorizedToStopTransaction E cs t (getStopTransactionTagId E s t))"
  shows "getChargingStation (snd (handleStopTransaction E db headers s soft central)) (cs_id cs) =
           Some ((checkAndFreeChargingStationConnector cs (tx_connectorId t))
                    \<lparr>cs_lastSeen := now E\<rparr>) \<and>
         (\<forall>c. getConnectorFromID (checkAndFreeChargingStationConnector cs (tx_connectorId t))
                 (tx_connectorId t) = Some c \<longrightarrow>
              co_currentTransactionID c = 0 \<and> co_currentTagID c = None \<and> co_userID c = None \<and>
              co_currentInstantWatts c = 0 \<and> co_currentTotalConsumptionWh c = 0) \<and>
         (fst (handleStopTransaction E db headers s soft central) = Auth_INVALID \<longrightarrow>
            getTransaction (snd (handleStopTransaction E db headers s soft central))
              (st_transactionId s) = Some t)"
proof -
  let ?tag = "getStopTransactionTagId E s t"
  let ?s0 = "s\<lparr>st_chargeBoxID := Some (cs_id cs)\<rparr>"
  obtain user alt where a: "(if \<not> central
            then isAuthorizedToStopTransaction E cs t ?tag
            else Inr (getUserByTagId E ?tag, None)) = Inr (user, alt)"
  proof (cases central)
    case True
    then show ?thesis using that by simp
  next
    case False
    with auth obtain p where "isAuthorizedToStopTransaction E cs t ?tag = Inr p"
      by (cases "isAuthorizedToStopTransaction E cs t ?tag") auto
    with False show ?thesis using that by (cases p) simp
  qed
  obtain r db' where f: "freeAndCloseTransaction E db cs ?s0 soft t user alt ?tag = (r, db')"
    by (cases "freeAndCloseTransaction E db cs ?s0 soft t user alt ?tag")
  have h: "handleStopTransaction E db headers s soft central =
      (case r of Inr status \<Rightarrow> status | Inl e \<Rightarrow> Auth_INVALID, db')"
    unfolding handleStopTransaction_open [OF res valid nonzero found "open" a] f
    by (simp split: sum.splits)
  note eff = freeAndClose_effect [OF f]
  have station: "getChargingStation db' (cs_id cs) =
      Some ((checkAndFreeChargingStationConnector cs (tx_connectorId t))\<lparr>cs_lastSeen := now E\<rparr>)"
    using eff(1) by (simp add: getChargingStation_def)
  have freed: "co_currentTransactionID c = 0 \<and> co_currentTagID c = None \<and> co_userID c = None \<and>
      co_currentInstantWatts c = 0 \<and> co_currentTotalConsumptionWh c = 0"
    if "find (\<lambda>c. co_connectorId c = i) (freeConnectorWithID i xs) = Some c" for c i xs
    using that by (induction xs) (auto simp: freeConnector_def split: if_splits)
  have invalid: "getTransaction db' (st_transactionId s) = Some t" if "r \<noteq> Inr Auth_ACCEPTED"
  proof -
    from eff(2) that have "db_transactions db' = db_transactions db \<or>
        db_transactions db' = putTransaction t (db_transactions db)"
      by auto
    then show ?thesis
      using found getTransaction_id [OF found] find_putTransaction [of t "db_transactions db"]
      by (auto simp: getTransaction_def)
  qed
  have "fst (handleStopTransaction E db headers s soft central) = Auth_INVALID \<longrightarrow>
      r \<noteq> Inr Auth_ACCEPTED"
    unfolding h by auto
  with invalid have inv: "fst (handleStopTransaction E db headers s soft central) = Auth_INVALID \<longrightarrow>
      getTransaction db' (st_transactionId s) = Some t"
    by blast
  have snd_h: "snd (handleStopTransaction E db headers s soft central) = db'"
    unfolding h by simp
  show ?thesis
    unfolding snd_h using station inv freed
    by (simp add: getConnectorFromID_def checkAndFreeChargingStationConnector_def)
qed

theorem connector_freed_before_closing_witness:
  "fst (handleStopTransaction exampleFailingCollaborators exampleStorage exampleHeader
     (exampleStopRequest 42) False False) = Auth_INVALID \<and>
   getChargingStation (snd (handleStopTransaction exampleFailingCollaborators exampleStorage
     exampleHeader (exampleStopRequest 42) False False)) (cs_id exampleStation) =
     Some ((checkAndFreeChargingStationConnector exampleStation (tx_connectorId exampleTransaction))
             \<lparr>cs_lastSeen := now exampleFailingCollaborators\<rparr>) \<and>
   map co_currentTransactionID (cs_connectors exampleStation) = [42] \<and>
   map co_currentTransactionID (cs_connectors
     (checkAndFreeChargingStationConnector exampleStation (tx_connectorId exampleTransaction))) = [0] \<and>
   getTransaction (snd (handleStopTransaction exampleFailingCollaborators exampleStorage
     exampleHeader (exampleStopRequest 42) False False)) (st_transactionId (exampleStopRequest 42)) =
     Some exampleTransaction \<and>
   tx_stop exampleTransaction = None"
proof -
  let ?R = "handleStopTransaction exampleFailingCollaborators exampleStorage exampleHeader
     (exampleStopRequest 42) False False"
  have valid: "validateStopTransaction exampleFailingCollaborators exampleStation
      (exampleStopRequest 42)"
    by (simp add: exampleFailingCollaborators_def exampleCollaborators_def)
  have nonzero: "st_transactionId (exampleStopRequest 42) \<noteq> 0"
    by (simp add: exampleStopRequest_def)
  have found: "getTransaction exampleStorage (st_transactionId (exampleStopRequest 42)) =
      Some exampleTransaction"
    by (simp add: getTransaction_def exampleStorage_def exampleStopRequest_def
        exampleTransaction_def)
  have op: "tx_stop exampleTransaction = None"
    by (simp add: exampleTransaction_def)
  have auth: "False \<or> \<not> isl (isAuthorizedToStopTransaction exampleFailingCollaborators
      exampleStation exampleTransaction
      (getStopTransactionTagId exampleFailingCollaborators (exampleStopRequest 42)
         exampleTransaction))"
    by (simp add: exampleFailingCollaborators_def exampleCollaborators_def)
  note th = connector_freed_before_closing [OF example_resolved(1) valid nonzero found op auth,
      of False]
  have a: "(if \<not> False
            then isAuthorizedToStopTransaction exampleFailingCollaborators exampleStation
                   exampleTransaction
                   (getStopTransactionTagId exampleFailingCollaborators (exampleStopRequest 42)
                      exampleTransaction)
            else Inr (getUserByTagId exampleFailingCollaborators
                   (getStopTransactionTagId exampleFailingCollaborators (exampleStopRequest 42)
                      exampleTransaction), None)) = Inr (None, None)"
    by (simp add: exampleFailingCollaborators_def exampleCollaborators_def)
  have invalid: "fst ?R = Auth_INVALID"
    unfolding handleStopTransaction_open [OF example_resolved(1) valid nonzero found op a]
    by (simp add: freeAndCloseTransaction_def Let_def exampleFailingCollaborators_def)
  have before: "map co_currentTransactionID (cs_connectors exampleStation) = [42]"
    by (simp add: exampleStation_def exampleConnector_def)
  have after: "map co_currentTransactionID (cs_connectors
     (checkAndFreeChargingStationConnector exampleStation (tx_connectorId exampleTransaction))) = [0]"
    by (simp add: checkAndFreeChargingStationConnector_def exampleStation_def exampleConnector_def
        exampleTransaction_def freeConnector_def)
  note station = th [THEN conjunct1]
  note kept = th [THEN conjunct2, THEN conjunct2, THEN mp, OF invalid]
  show ?thesis by (intro conjI) (rule invalid station before after kept op)+
qed

subsection \<open>Cleanup of active transactions\<close>





















subsection \<open>BootNotification\<close>

lemma bootNotificationBody_resolved:
  assumes "validateBootNotification E bn" and "hd_chargeBoxIdentity h \<noteq> []"
    and "getTenant db (hd_tenantID h) = Some tenant"
  shows "bootNotificationBody E db h bn =
     (case (case getChargingStation db (hd_chargeBoxIdentity h) of
              None \<Rightarrow> registerChargingStation E db h bn
            | Some chargingStation \<Rightarrow> updateChargingStation E chargingStation bn) of
        Inl e \<Rightarrow> Inl e
      | Inr chargingStation \<Rightarrow>
          Inr (\<lparr>br_status = Reg_ACCEPTED, br_currentTime = now E,
                br_interval = heartbeatIntervalSecs E h\<rparr>,
               saveBootNotification
                 (saveChargingStation db
                    (applyTemplateToChargingStation E
                       ((if truthyString (hd_chargingStationURL h)
                         then \<lambda>c. c\<lparr>cs_chargingStationURL := hd_chargingStationURL h\<rparr>
                         else (\<lambda>c. c))
                          (chargingStation\<lparr>
                             cs_ocppVersion := hd_ocppVersion h,
                             cs_ocppProtocol := hd_ocppProtocol h,
                             cs_lastSeen := now E,
                             cs_currentIPAddress := hd_currentIPAddress h\<rparr>))))
                 (hd_chargeBoxIdentity h) bn))"
  using assms by (simp add: bootNotificationBody_def Let_def split: sum.splits)

lemma handleBootNotification_rejected:
  "bootNotificationBody E db h bn = Inl e \<Longrightarrow>
   handleBootNotification E db h bn =
     (\<lparr>br_status = Reg_REJECTED, br_currentTime = now E,
       br_interval = Some (BOOT_NOTIFICATION_WAIT_TIME E)\<rparr>, db)"
  by (simp add: handleBootNotification_def)

lemma bootNotificationBody_known_mismatch:
  assumes "getChargingStation db (hd_chargeBoxIdentity h) = Some cs"
    and "updateChargingStation E cs bn = Inl e"
  shows "\<exists>e'. bootNotificationBody E db h bn = Inl e'"
  using assms by (auto simp: bootNotificationBody_def split: option.splits)

lemma saved_station:
  "getChargingStation (saveBootNotification (saveChargingStation db c) i bn) (cs_id c) = Some c"
  by (simp add: getChargingStation_def saveBootNotification_def saveChargingStation_def)

lemma template_keeps:
  "cs_id (applyTemplateToChargingStation E c) = cs_id c"
  "cs_registrationStatus (applyTemplateToChargingStation E c) = cs_registrationStatus c"
  "cs_issuer (applyTemplateToChargingStation E c) = cs_issuer c"
  "cs_deleted (applyTemplateToChargingStation E c) = cs_deleted c"
  "cs_lastReboot (applyTemplateToChargingStation E c) = cs_lastReboot c"
  "cs_chargePointVendor (applyTemplateToChargingStation E c) = cs_chargePointVendor c"
  "cs_chargePointModel (applyTemplateToChargingStation E c) = cs_chargePointModel c"
  "cs_chargePointSerialNumber (applyTemplateToChargingStation E c) = cs_chargePointSerialNumber c"
  "cs_firmwareVersion (applyTemplateToChargingStation E c) = cs_firmwareVersion c"
  "cs_siteAreaID (applyTemplateToChargingStation E c) = cs_siteAreaID c"
  "cs_siteID (applyTemplateToChargingStation E c) = cs_siteID c"
  "cs_coordinates (applyTemplateToChargingStation E c) = cs_coordinates c"
  by (simp_all add: applyTemplateToChargingStation_def split: option.splits)

lemma registerChargingStation_accepts:
  "(\<exists>c. registerChargingStation E db h bn = Inr c) =
   (truthyString (hd_token h) \<and>
    (\<exists>token e. getRegistrationToken db (the (hd_token h)) = Some token \<and>
       rt_expirationDate token = Some e \<and> \<not> e < now E \<and> rt_revocationDate token = None))"
  by (auto simp: registerChargingStation_def split: option.splits)

lemma registerChargingStation_result:
  "registerChargingStation E db h bn = Inr c \<Longrightarrow>
   \<exists>token. getRegistrationToken db (the (hd_token h)) = Some token \<and>
     c = assignToSiteArea db token (newChargingStation E h bn)"
  by (auto simp: registerChargingStation_def split: option.splits if_splits)

lemma assignToSiteArea_keeps:
  "cs_id (assignToSiteArea db token c) = cs_id c"
  "cs_registrationStatus (assignToSiteArea db token c) = cs_registrationStatus c"
  "cs_issuer (assignToSiteArea db token c) = cs_issuer c"
  "cs_chargePointVendor (assignToSiteArea db token c) = cs_chargePointVendor c"
  "cs_chargePointModel (assignToSiteArea db token c) = cs_chargePointModel c"
  "cs_chargePointSerialNumber (assignToSiteArea db token c) = cs_chargePointSerialNumber c"
  "cs_firmwareVersion (assignToSiteArea db token c) = cs_firmwareVersion c"
  by (simp_all add: assignToSiteArea_def Let_def split: option.splits)

lemma assignToSiteArea_links:
  assumes "truthyString (rt_siteAreaID token)"
    and "getSiteArea db (the (rt_siteAreaID token)) = Some siteArea"
  shows "cs_siteAreaID (assignToSiteArea db token c) = rt_siteAreaID token"
    and "cs_siteID (assignToSiteArea db token c) = sa_siteID siteArea"
    and "length (sa_coordinates siteArea) = 2 \<longrightarrow>
         cs_coordinates (assignToSiteArea db token c) = sa_coordinates siteArea"
  using assms by (simp_all add: assignToSiteArea_def Let_def)

text \<open>
  Claim C3, as stated, accepts the boot of an unknown station whenever the token presented
  is stored, not expired and not revoked, and links the station to the site area that the
  token names. The first token stored below has no expiration date, so it is not past any,
  and no revocation date: the boot that presents it is rejected. The second token is valid
  until 2000000 ms and names a site area that is not stored: the boot is accepted and the
  station created carries no site area.
\<close>

theorem token_without_expiration_rejected:
  "getChargingStation
     (exampleTokenStorage
        \<lparr>rt_expirationDate = None, rt_revocationDate = None, rt_siteAreaID = None\<rparr>)
     ''CS9'' = None \<and>
   getRegistrationToken
     (exampleTokenStorage
        \<lparr>rt_expirationDate = None, rt_revocationDate = None, rt_siteAreaID = None\<rparr>)
     ''TOKEN'' =
     Some \<lparr>rt_expirationDate = None, rt_revocationDate = None, rt_siteAreaID = None\<rparr> \<and>
   br_status (fst (handleBootNotification exampleCollaborators
     (exampleTokenStorage
        \<lparr>rt_expirationDate = None, rt_revocationDate = None, rt_siteAreaID = None\<rparr>)
     (exampleBootHeader ''CS9'' (Some ''TOKEN'')) (exampleBootNotification (Some ''Z'')))) =
     Reg_REJECTED \<and>
   getSiteArea
     (exampleTokenStorage
        \<lparr>rt_expirationDate = Some 2000000, rt_revocationDate = None,
         rt_siteAreaID = Some ''SA9''\<rparr>) ''SA9'' = None \<and>
   br_status (fst (handleBootNotification exampleCollaborators
     (exampleTokenStorage
        \<lparr>rt_expirationDate = Some 2000000, rt_revocationDate = None,
         rt_siteAreaID = Some ''SA9''\<rparr>)
     (exampleBootHeader ''CS9'' (Some ''TOKEN'')) (exampleBootNotification (Some ''Z'')))) =
     Reg_ACCEPTED \<and>
   map_option cs_siteAreaID (getChargingStation (snd (handleBootNotification exampleCollaborators
     (exampleTokenStorage
        \<lparr>rt_expirationDate = Some 2000000, rt_revocationDate = None,
         rt_siteAreaID = Some ''SA9''\<rparr>)
     (exampleBootHeader ''CS9'' (Some ''TOKEN'')) (exampleBootNotification (Some ''Z''))))
     ''CS9'') = Some None"
  by (simp add: handleBootNotification_def bootNotificationBody_def registerChargingStation_def
      getChargingStation_def getRegistrationToken_def getTenant_def getSiteArea_def
      truthyString_def assignToSiteArea_def newChargingStation_def
      applyTemplateToChargingStation_def saveChargingStation_def saveBootNotification_def
      Let_def exampleTokenStorage_def exampleStorage_def exampleBootHeader_def exampleHeader_def
      exampleBootNotification_def exampleCollaborators_def)

text \<open>
  Claim C3, amended. For a valid BootNotification of an existing tenant from a station id
  that is unknown, the boot is accepted if and only if the header presents a token and the
  token stored under it carries an expiration date that is not past and carries no
  revocation date; a boot that is not accepted writes nothing. On acceptance the station
  stored under the id has registration status Accepted, issuer set, and the vendor, model,
  serial number and firmware version of the notification; when the token names a site area
  and that site area is stored, the station carries the site area's id and site id, and
  its coordinates when the site area has exactly two.
\<close>

theorem unknown_station_boot:
  assumes valid: "validateBootNotification E bn"
    and identity: "hd_chargeBoxIdentity headers \<noteq> []"
    and tenant: "getTenant db (hd_tenantID headers) = Some tenant"
    and unknown: "getChargingStation db (hd_chargeBoxIdentity headers) = None"
  shows "(br_status (fst (handleBootNotification E db headers bn)) = Reg_ACCEPTED) =
           (truthyString (hd_token headers) \<and>
            (\<exists>token e. getRegistrationToken db (the (hd_token headers)) = Some token \<and>
               rt_expirationDate token = Some e \<and> \<not> e < now E \<and>
               rt_revocationDate token = None)) \<and>
         (br_status (fst (handleBootNotification E db headers bn)) \<noteq> Reg_ACCEPTED \<longrightarrow>
            snd (handleBootNotification E db headers bn) = db) \<and>
         (br_status (fst (handleBootNotification E db headers bn)) = Reg_ACCEPTED \<longrightarrow>
            (\<exists>created token.
               getChargingStation (snd (handleBootNotification E db headers bn))
                 (hd_chargeBoxIdentity headers) = Some created \<and>
               getRegistrationToken db (the (hd_token headers)) = Some token \<and>
               cs_registrationStatus created = Reg_ACCEPTED \<and> cs_issuer created \<and>
               cs_chargePointVendor created = bn_chargePointVendor bn \<and>
               cs_chargePointModel created = bn_chargePointModel bn \<and>
               cs_chargePointSerialNumber created = bn_chargePointSerialNumber bn \<and>
               cs_firmwareVersion created = bn_firmwareVersion bn \<and>
               (\<forall>siteArea. truthyString (rt_siteAreaID token) \<and>
                    getSiteArea db (the (rt_siteAreaID token)) = Some siteArea \<longrightarrow>
                  cs_siteAreaID created = rt_siteAreaID token \<and>
                  cs_siteID created = sa_siteID siteArea \<and>
                  (length (sa_coordinates siteArea) = 2 \<longrightarrow>
                     cs_coordinates created = sa_coordinates siteArea))))"
proof (cases "registerChargingStation E db headers bn")
  case (Inl e)
  then have body: "bootNotificationBody E db headers bn = Inl e"
    using bootNotificationBody_resolved [OF valid identity tenant] unknown by simp
  have no: "\<not> (\<exists>c. registerChargingStation E db headers bn = Inr c)"
    using Inl by simp
  show ?thesis
    unfolding handleBootNotification_rejected [OF body]
    using no [unfolded registerChargingStation_accepts] by simp
next
  case (Inr c)
  let ?final = "applyTemplateToChargingStation E
                       ((if truthyString (hd_chargingStationURL headers)
                         then \<lambda>c. c\<lparr>cs_chargingStationURL := hd_chargingStationURL headers\<rparr>
                         else (\<lambda>c. c))
                          (c\<lparr>
                             cs_ocppVersion := hd_ocppVersion headers,
                             cs_ocppProtocol := hd_ocppProtocol headers,
                             cs_lastSeen := now E,
                             cs_currentIPAddress := hd_currentIPAddress headers\<rparr>))"
  have h: "handleBootNotification E db headers bn =
      (\<lparr>br_status = Reg_ACCEPTED, br_currentTime = now E,
        br_interval = heartbeatIntervalSecs E headers\<rparr>,
       saveBootNotification (saveChargingStation db ?final) (hd_chargeBoxIdentity headers) bn)"
    using bootNotificationBody_resolved [OF valid identity tenant] unknown Inr
    by (simp add: handleBootNotification_def)
  have yes: "truthyString (hd_token headers) \<and>
            (\<exists>token e. getRegistrationToken db (the (hd_token headers)) = Some token \<and>
               rt_expirationDate token = Some e \<and> \<not> e < now E \<and>
               rt_revocationDate token = None)"
    using Inr registerChargingStation_accepts [of E db headers bn] by blast
  from registerChargingStation_result [OF Inr] obtain token where
    token: "getRegistrationToken db (the (hd_token headers)) = Some token"
    and c: "c = assignToSiteArea db token (newChargingStation E headers bn)"
    by blast
  have idf: "cs_id ?final = hd_chargeBoxIdentity headers"
    by (simp add: template_keeps c assignToSiteArea_keeps newChargingStation_def)
  have got: "getChargingStation (snd (handleBootNotification E db headers bn))
      (hd_chargeBoxIdentity headers) = Some ?final"
    unfolding h using saved_station [of db ?final "hd_chargeBoxIdentity headers" bn] idf by simp
  have fields: "cs_registrationStatus ?final = Reg_ACCEPTED \<and> cs_issuer ?final \<and>
      cs_chargePointVendor ?final = bn_chargePointVendor bn \<and>
      cs_chargePointModel ?final = bn_chargePointModel bn \<and>
      cs_chargePointSerialNumber ?final = bn_chargePointSerialNumber bn \<and>
      cs_firmwareVersion ?final = bn_firmwareVersion bn"
    by (simp add: template_keeps c assignToSiteArea_keeps newChargingStation_def)
  have site: "cs_siteAreaID ?final = rt_siteAreaID token \<and>
      cs_siteID ?final = sa_siteID siteArea \<and>
      (length (sa_coordinates siteArea) = 2 \<longrightarrow> cs_coordinates ?final = sa_coordinates siteArea)"
    if "truthyString (rt_siteAreaID token) \<and>
        getSiteArea db (the (rt_siteAreaID token)) = Some siteArea" for siteArea
    using that assignToSiteArea_links [of token db siteArea "newChargingStation E headers bn"]
    by (simp add: template_keeps c)
  have acc: "br_status (fst (handleBootNotification E db headers bn)) = Reg_ACCEPTED"
    by (simp add: h)
  from got token fields site have ex: "\<exists>created token.
               getChargingStation (snd (handleBootNotification E db headers bn))
                 (hd_chargeBoxIdentity headers) = Some created \<and>
               getRegistrationToken db (the (hd_token headers)) = Some token \<and>
               cs_registrationStatus created = Reg_ACCEPTED \<and> cs_issuer created \<and>
               cs_chargePointVendor created = bn_chargePointVendor bn \<and>
               cs_chargePointModel created = bn_chargePointModel bn \<and>
               cs_chargePointSerialNumber created = bn_chargePointSerialNumber bn \<and>
               cs_firmwareVersion created = bn_firmwareVersion bn \<and>
               (\<forall>siteArea. truthyString (rt_siteAreaID token) \<and>
                    getSiteArea db (the (rt_siteAreaID token)) = Some siteArea \<longrightarrow>
                  cs_siteAreaID created = rt_siteAreaID token \<and>
                  cs_siteID created = sa_siteID siteArea \<and>
                  (length (sa_coordinates siteArea) = 2 \<longrightarrow>
                     cs_coordinates created = sa_coordinates siteArea))"
    by blast
  from acc yes ex show ?thesis by simp
qed

theorem unknown_station_boot_witness:
  "getChargingStation
     (exampleTokenStorage
        \<lparr>rt_expirationDate = Some 2000000, rt_revocationDate = None,
         rt_siteAreaID = Some ''SA1''\<rparr>)
     (hd_chargeBoxIdentity (exampleBootHeader ''CS9'' (Some ''TOKEN''))) = None \<and>
   now exampleCollaborators = 1000000 \<and>
   br_status (fst (handleBootNotification exampleCollaborators
     (exampleTokenStorage
        \<lparr>rt_expirationDate = Some 2000000, rt_revocationDate = None,
         rt_siteAreaID = Some ''SA1''\<rparr>)
     (exampleBootHeader ''CS9'' (Some ''TOKEN'')) (exampleBootNotification (Some ''Z'')))) =
     Reg_ACCEPTED \<and>
   map_option cs_siteAreaID (getChargingStation (snd (handleBootNotification exampleCollaborators
     (exampleTokenStorage
        \<lparr>rt_expirationDate = Some 2000000, rt_revocationDate = None,
         rt_siteAreaID = Some ''SA1''\<rparr>)
     (exampleBootHeader ''CS9'' (Some ''TOKEN'')) (exampleBootNotification (Some ''Z''))))
     ''CS9'') = Some (Some ''SA1'')"
proof -
  let ?token = "\<lparr>rt_expirationDate = Some 2000000, rt_revocationDate = None,
         rt_siteAreaID = Some ''SA1''\<rparr>"
  let ?db = "exampleTokenStorage ?token"
  let ?h = "exampleBootHeader ''CS9'' (Some ''TOKEN'')"
  let ?bn = "exampleBootNotification (Some ''Z'')"
  have valid: "validateBootNotification exampleCollaborators ?bn"
    by (simp add: exampleCollaborators_def)
  have identity: "hd_chargeBoxIdentity ?h \<noteq> []"
    by (simp add: exampleBootHeader_def)
  have tenant: "getTenant ?db (hd_tenantID ?h) = Some \<lparr>tn_id = ''T1'', tn_subdomain = ''t1''\<rparr>"
    by (simp add: getTenant_def exampleTokenStorage_def exampleStorage_def exampleBootHeader_def
        exampleHeader_def)
  have unknown: "getChargingStation ?db (hd_chargeBoxIdentity ?h) = None"
    by (simp add: getChargingStation_def exampleTokenStorage_def exampleStorage_def
        exampleBootHeader_def)
  have clock: "now exampleCollaborators = 1000000"
    by (simp add: exampleCollaborators_def)
  have ok: "truthyString (hd_token ?h) \<and>
      (\<exists>token e. getRegistrationToken ?db (the (hd_token ?h)) = Some token \<and>
         rt_expirationDate token = Some e \<and> \<not> e < now exampleCollaborators \<and>
         rt_revocationDate token = None)"
    by (simp add: truthyString_def exampleBootHeader_def getRegistrationToken_def
        exampleTokenStorage_def exampleCollaborators_def)
  note th = unknown_station_boot [OF valid identity tenant unknown]
  note accepted = th [THEN conjunct1, THEN iffD2, OF ok]
  from th [THEN conjunct2, THEN conjunct2, THEN mp, OF accepted]
  obtain created token where
    got: "getChargingStation (snd (handleBootNotification exampleCollaborators ?db ?h ?bn))
      (hd_chargeBoxIdentity ?h) = Some created"
    and tok: "getRegistrationToken ?db (the (hd_token ?h)) = Some token"
    and link: "\<forall>siteArea. truthyString (rt_siteAreaID token) \<and>
        getSiteArea ?db (the (rt_siteAreaID token)) = Some siteArea \<longrightarrow>
        cs_siteAreaID created = rt_siteAreaID token \<and>
        cs_siteID created = sa_siteID siteArea \<and>
        (length (sa_coordinates siteArea) = 2 \<longrightarrow> cs_coordinates created = sa_coordinates siteArea)"
    by blast
  from tok have token: "token = ?token"
    by (simp add: getRegistrationToken_def exampleTokenStorage_def exampleBootHeader_def)
  have "truthyString (rt_siteAreaID ?token) \<and>
      getSiteArea ?db (the (rt_siteAreaID ?token)) =
        Some \<lparr>sa_siteID = Some ''S1'', sa_coordinates = [4.8, 45.7]\<rparr>"
    by (simp add: truthyString_def getSiteArea_def exampleTokenStorage_def)
  with link token have "cs_siteAreaID created = Some ''SA1''" by simp
  with got have site: "map_option cs_siteAreaID (getChargingStation
      (snd (handleBootNotification exampleCollaborators ?db ?h ?bn)) ''CS9'') = Some (Some ''SA1'')"
    by (simp add: exampleBootHeader_def)
  show ?thesis by (intro conjI) (rule unknown clock accepted site)+
qed

text \<open>
  Claim C4. For a BootNotification from a station id that is stored (under its own id): if
  the vendor or the model reported differs from the stored one, or both serial numbers are
  present and differ, the response is Rejected and the storage after the handler is the
  storage before it. Otherwise, for a valid notification of an existing tenant, the
  response is Accepted with the boot time as current time and the heartbeat interval of the
  station's protocol, and the station stored afterwards has the serial number and the
  firmware version of the notification, lastReboot at the boot time, deleted cleared and
  registration status Accepted.
\<close>

theorem known_station_boot:
  assumes known: "getChargingStation db (hd_chargeBoxIdentity headers) = Some cs"
    and key: "cs_id cs = hd_chargeBoxIdentity headers"
  shows "((cs_chargePointVendor cs \<noteq> bn_chargePointVendor bn \<or>
           cs_chargePointModel cs \<noteq> bn_chargePointModel bn \<or>
           (truthyString (cs_chargePointSerialNumber cs) \<and>
            truthyString (bn_chargePointSerialNumber bn) \<and>
            cs_chargePointSerialNumber cs \<noteq> bn_chargePointSerialNumber bn)) \<longrightarrow>
          br_status (fst (handleBootNotification E db headers bn)) = Reg_REJECTED \<and>
          snd (handleBootNotification E db headers bn) = db) \<and>
         (\<not> (cs_chargePointVendor cs \<noteq> bn_chargePointVendor bn \<or>
             cs_chargePointModel cs \<noteq> bn_chargePointModel bn \<or>
             (truthyString (cs_chargePointSerialNumber cs) \<and>
              truthyString (bn_chargePointSerialNumber bn) \<and>
              cs_chargePointSerialNumber cs \<noteq> bn_chargePointSerialNumber bn)) \<and>
          validateBootNotification E bn \<and> hd_chargeBoxIdentity headers \<noteq> [] \<and>
          getTenant db (hd_tenantID headers) \<noteq> None \<longrightarrow>
          fst (handleBootNotification E db headers bn) =
            \<lparr>br_status = Reg_ACCEPTED, br_currentTime = now E,
             br_interval = heartbeatIntervalSecs E headers\<rparr> \<and>
          (\<exists>saved. getChargingStation (snd (handleBootNotification E db headers bn))
                      (hd_chargeBoxIdentity headers) = Some saved \<and>
             cs_chargePointSerialNumber saved = bn_chargePointSerialNumber bn \<and>
             cs_firmwareVersion saved = bn_firmwareVersion bn \<and>
             cs_lastReboot saved = now E \<and>
             \<not> cs_deleted saved \<and>
             cs_registrationStatus saved = Reg_ACCEPTED))"
proof (intro conjI impI)
  assume "cs_chargePointVendor cs \<noteq> bn_chargePointVendor bn \<or>
           cs_chargePointModel cs \<noteq> bn_chargePointModel bn \<or>
           (truthyString (cs_chargePointSerialNumber cs) \<and>
            truthyString (bn_chargePointSerialNumber bn) \<and>
            cs_chargePointSerialNumber cs \<noteq> bn_chargePointSerialNumber bn)"
  then have "\<exists>e. updateChargingStation E cs bn = Inl e"
    by (auto simp: updateChargingStation_def)
  then obtain e' where "bootNotificationBody E db headers bn = Inl e'"
    using bootNotificationBody_known_mismatch [OF known] by blast
  from handleBootNotification_rejected [OF this]
  show "br_status (fst (handleBootNotification E db headers bn)) = Reg_REJECTED"
    and "snd (handleBootNotification E db headers bn) = db"
    by simp_all
next
  assume a: "\<not> (cs_chargePointVendor cs \<noteq> bn_chargePointVendor bn \<or>
             cs_chargePointModel cs \<noteq> bn_chargePointModel bn \<or>
             (truthyString (cs_chargePointSerialNumber cs) \<and>
              truthyString (bn_chargePointSerialNumber bn) \<and>
              cs_chargePointSerialNumber cs \<noteq> bn_chargePointSerialNumber bn)) \<and>
          validateBootNotification E bn \<and> hd_chargeBoxIdentity headers \<noteq> [] \<and>
          getTenant db (hd_tenantID headers) \<noteq> None"
  then obtain tenant where t: "getTenant db (hd_tenantID headers) = Some tenant" by auto
  let ?u = "cs\<lparr>
        cs_chargePointSerialNumber := bn_chargePointSerialNumber bn,
        cs_chargeBoxSerialNumber := bn_chargeBoxSerialNumber bn,
        cs_firmwareVersion := bn_firmwareVersion bn,
        cs_lastReboot := now E,
        cs_registrationStatus := Reg_ACCEPTED,
        cs_deleted := False\<rparr>"
  have upd: "updateChargingStation E cs bn = Inr ?u"
    using a by (auto simp: updateChargingStation_def)
  let ?final = "applyTemplateToChargingStation E
                       ((if truthyString (hd_chargingStationURL headers)
                         then \<lambda>c. c\<lparr>cs_chargingStationURL := hd_chargingStationURL headers\<rparr>
                         else (\<lambda>c. c))
                          (?u\<lparr>
                             cs_ocppVersion := hd_ocppVersion headers,
                             cs_ocppProtocol := hd_ocppProtocol headers,
                             cs_lastSeen := now E,
                             cs_currentIPAddress := hd_currentIPAddress headers\<rparr>))"
  have body: "bootNotificationBody E db headers bn =
      Inr (\<lparr>br_status = Reg_ACCEPTED, br_currentTime = now E,
             br_interval = heartbeatIntervalSecs E headers\<rparr>,
           saveBootNotification (saveChargingStation db ?final) (hd_chargeBoxIdentity headers) bn)"
    using a bootNotificationBody_resolved [of E bn headers db tenant] t known upd by simp
  have h: "handleBootNotification E db headers bn =
      (\<lparr>br_status = Reg_ACCEPTED, br_currentTime = now E,
        br_interval = heartbeatIntervalSecs E headers\<rparr>,
       saveBootNotification (saveChargingStation db ?final) (hd_chargeBoxIdentity headers) bn)"
    by (simp add: handleBootNotification_def body)
  show "fst (handleBootNotification E db headers bn) =
            \<lparr>br_status = Reg_ACCEPTED, br_currentTime = now E,
             br_interval = heartbeatIntervalSecs E headers\<rparr>"
    by (simp add: h)
  have idf: "cs_id ?final = hd_chargeBoxIdentity headers"
    using key by (simp add: template_keeps)
  have "getChargingStation (snd (handleBootNotification E db headers bn))
      (hd_chargeBoxIdentity headers) = Some ?final"
    unfolding h using saved_station [of db ?final "hd_chargeBoxIdentity headers" bn] idf by simp
  moreover have "cs_chargePointSerialNumber ?final = bn_chargePointSerialNumber bn \<and>
             cs_firmwareVersion ?final = bn_firmwareVersion bn \<and>
             cs_lastReboot ?final = now E \<and>
             \<not> cs_deleted ?final \<and>
             cs_registrationStatus ?final = Reg_ACCEPTED"
    by (simp add: template_keeps)
  ultimately show "\<exists>saved. getChargingStation (snd (handleBootNotification E db headers bn))
                      (hd_chargeBoxIdentity headers) = Some saved \<and>
             cs_chargePointSerialNumber saved = bn_chargePointSerialNumber bn \<and>
             cs_firmwareVersion saved = bn_firmwareVersion bn \<and>
             cs_lastReboot saved = now E \<and>
             \<not> cs_deleted saved \<and>
             cs_registrationStatus saved = Reg_ACCEPTED"
    by blast
qed

theorem known_station_boot_witness:
  "cs_chargePointSerialNumber exampleStation = Some ''X'' \<and>
   br_status (fst (handleBootNotification exampleCollaborators exampleStorage exampleHeader
      (exampleBootNotification (Some ''Y'')))) = Reg_REJECTED \<and>
   snd (handleBootNotification exampleCollaborators exampleStorage exampleHeader
      (exampleBootNotification (Some ''Y''))) = exampleStorage \<and>
   fst (handleBootNotification exampleCollaborators exampleStorage exampleHeader
      (exampleBootNotification (Some ''X''))) =
     \<lparr>br_status = Reg_ACCEPTED, br_currentTime = now exampleCollaborators,
      br_interval = heartbeatIntervalSecs exampleCollaborators exampleHeader\<rparr>"
proof -
  have known: "getChargingStation exampleStorage (hd_chargeBoxIdentity exampleHeader) =
      Some exampleStation"
    by (simp add: getChargingStation_def exampleStorage_def exampleHeader_def)
  have key: "cs_id exampleStation = hd_chargeBoxIdentity exampleHeader"
    by (simp add: exampleStation_def exampleHeader_def)
  have serial: "cs_chargePointSerialNumber exampleStation = Some ''X''"
    by (simp add: exampleStation_def)
  have differs: "cs_chargePointVendor exampleStation \<noteq>
        bn_chargePointVendor (exampleBootNotification (Some ''Y'')) \<or>
      cs_chargePointModel exampleStation \<noteq>
        bn_chargePointModel (exampleBootNotification (Some ''Y'')) \<or>
      (truthyString (cs_chargePointSerialNumber exampleStation) \<and>
       truthyString (bn_chargePointSerialNumber (exampleBootNotification (Some ''Y''))) \<and>
       cs_chargePointSerialNumber exampleStation \<noteq>
         bn_chargePointSerialNumber (exampleBootNotification (Some ''Y'')))"
    by (simp add: exampleStation_def exampleBootNotification_def truthyString_def)
  have agrees: "\<not> (cs_chargePointVendor exampleStation \<noteq>
        bn_chargePointVendor (exampleBootNotification (Some ''X'')) \<or>
      cs_chargePointModel exampleStation \<noteq>
        bn_chargePointModel (exampleBootNotification (Some ''X'')) \<or>
      (truthyString (cs_chargePointSerialNumber exampleStation) \<and>
       truthyString (bn_chargePointSerialNumber (exampleBootNotification (Some ''X''))) \<and>
       cs_chargePointSerialNumber exampleStation \<noteq>
         bn_chargePointSerialNumber (exampleBootNotification (Some ''X'')))) \<and>
      validateBootNotification exampleCollaborators (exampleBootNotification (Some ''X'')) \<and>
      hd_chargeBoxIdentity exampleHeader \<noteq> [] \<and>
      getTenant exampleStorage (hd_tenantID exampleHeader) \<noteq> None"
    by (simp add: exampleStation_def exampleBootNotification_def truthyString_def
        exampleCollaborators_def exampleHeader_def getTenant_def exampleStorage_def)
  note rejected = known_station_boot [OF known key, of "exampleBootNotification (Some ''Y'')"
      exampleCollaborators, THEN conjunct1, THEN mp, OF differs]
  note accepted = known_station_boot [OF known key, of "exampleBootNotification (Some ''X'')"
      exampleCollaborators, THEN conjunct2, THEN mp, OF agrees, THEN conjunct1]
  show ?thesis
    by (intro conjI) (rule serial rejected [THEN conjunct1] rejected [THEN conjunct2] accepted)+
qed

end
